theory Spec2Isabelle
  imports Main
begin

section \<open>snap-bootstrap initramfs-mounts: boot-mode classification and mount tuples\<close>

text \<open>
  A shallow embedding of \<^verbatim>\<open>cmd/snap-bootstrap/cmd_initramfs_mounts.go\<close>.
  Byte slices and Go strings are \<^typ>\<open>string\<close> (lists of bytes), Go errors are values
  of the datatype \<open>error\<close>, and the process environment the command reads (the kernel
  command line, the mount table, the seed, the modeenv file) is a record \<open>world\<close>
  that the generators take and return.
\<close>

subsection \<open>Errors\<close>

text \<open>
  One constructor per error the file itself creates with \<^verbatim>\<open>fmt.Errorf\<close>, one for
  the only error a \<^verbatim>\<open>bufio.Scanner\<close> over an in-memory buffer can report
  (\<^verbatim>\<open>bufio.ErrTooLong\<close>), one for the run-time panic of an index out of range, and
  one for errors handed back by collaborators (\<^verbatim>\<open>osutil\<close>, \<^verbatim>\<open>seed\<close>, \<^verbatim>\<open>snap\<close>,
  \<^verbatim>\<open>boot\<close>, \<^verbatim>\<open>ioutil\<close>), which carry the collaborator's message.
\<close>

datatype error =
    ErrUnknownMode string          \<comment> \<open>\<^verbatim>\<open>cannot use unknown mode %q\<close>\<close>
  | ErrCannotDetect                \<comment> \<open>\<^verbatim>\<open>cannot detect mode nor recovery system to use\<close>\<close>
  | ErrRecoverNotImplemented       \<comment> \<open>\<^verbatim>\<open>recover mode mount generation not implemented yet\<close>\<close>
  | ErrModeNotHandled              \<comment> \<open>\<^verbatim>\<open>internal error: mode in generateInitramfsMounts not handled\<close>\<close>
  | ErrTooLong                     \<comment> \<open>\<^verbatim>\<open>bufio.Scanner: token too long\<close>\<close>
  | PanicIndexOutOfRange
  | ErrExternal string

subsection \<open>The word scanner\<close>

text \<open>
  \<^verbatim>\<open>bufio.ScanWords\<close> splits at the runes \<^verbatim>\<open>isSpace\<close> accepts. In UTF-8 these are
  the byte sequences below; a leading byte of one of them is never a continuation
  byte, so the rune decoder cannot step over one, and an over-long or truncated
  encoding decodes to \<^verbatim>\<open>RuneError\<close>, which is no space. \<open>spaceWidth s\<close> is the
  width of the space rune \<open>s\<close> starts with, and 0 when it starts with none.
\<close>

definition isAsciiSpace :: "char \<Rightarrow> bool" where
  "isAsciiSpace c =
     (c = CHR 0x09 \<or> c = CHR 0x0A \<or> c = CHR 0x0B \<or> c = CHR 0x0C \<or> c = CHR 0x0D \<or> c = CHR 0x20)"

fun spaceWidth :: "string \<Rightarrow> nat" where
  "spaceWidth [] = 0"
| "spaceWidth (c # cs) =
     (if isAsciiSpace c then 1
      else if c = CHR 0xC2 then
        (case cs of
           d # _ \<Rightarrow> if d = CHR 0x85 \<or> d = CHR 0xA0 then 2 else 0
         | [] \<Rightarrow> 0)
      else if c = CHR 0xE1 then
        (case cs of
           d # e # _ \<Rightarrow> if d = CHR 0x9A \<and> e = CHR 0x80 then 3 else 0
         | _ \<Rightarrow> 0)
      else if c = CHR 0xE2 then
        (case cs of
           d # e # _ \<Rightarrow>
             if d = CHR 0x80 \<and>
                ((0x80 \<le> (of_char e :: nat) \<and> (of_char e :: nat) \<le> 0x8A) \<or>
                 e = CHR 0xA8 \<or> e = CHR 0xA9 \<or> e = CHR 0xAF) then 3
             else if d = CHR 0x81 \<and> e = CHR 0x9F then 3
             else 0
         | _ \<Rightarrow> 0)
      else if c = CHR 0xE3 then
        (case cs of
           d # e # _ \<Rightarrow> if d = CHR 0x80 \<and> e = CHR 0x80 then 3 else 0
         | _ \<Rightarrow> 0)
      else 0)"

lemma spaceWidth_le: "spaceWidth s \<le> 3"
  by (cases s) (auto split: list.splits)

lemma spaceWidth_pos_nonempty: "0 < spaceWidth s \<Longrightarrow> s \<noteq> []"
  by (cases s) auto

text \<open>The first loop of \<^verbatim>\<open>ScanWords\<close>: skip leading spaces.\<close>

function skipSpaces :: "string \<Rightarrow> string" where
  "skipSpaces s = (if spaceWidth s = 0 then s else skipSpaces (drop (spaceWidth s) s))"
  by pat_completeness auto
termination
proof (relation "measure length", goal_cases)
  case 1
  show ?case by simp
next
  case (2 s)
  then have "s \<noteq> []" and "0 < spaceWidth s"
    using spaceWidth_pos_nonempty [of s] by auto
  then show ?case by (cases s) auto
qed

declare skipSpaces.simps [simp del]

text \<open>The second loop of \<^verbatim>\<open>ScanWords\<close>: the bytes up to the next space, and the rest.\<close>

fun splitWord :: "string \<Rightarrow> string \<times> string" where
  "splitWord [] = ([], [])"
| "splitWord (c # cs) =
     (if spaceWidth (c # cs) \<noteq> 0 then ([], c # cs)
      else (case splitWord cs of (t, r) \<Rightarrow> (c # t, r)))"

text \<open>
  \<^verbatim>\<open>bufio.Scanner\<close> holds the pending token in a buffer that grows to
  \<^verbatim>\<open>MaxScanTokenSize\<close> bytes and no further. A token is delivered when the buffer
  holds it together with the whole space rune that ends it, or when the input ends
  before the buffer is full; otherwise \<^verbatim>\<open>Scan\<close> stops with \<^verbatim>\<open>ErrTooLong\<close>.
  \<open>scanWords\<close> gives the tokens \<^verbatim>\<open>Scan\<close> delivers, in order, and what \<^verbatim>\<open>Err\<close>
  reports once \<^verbatim>\<open>Scan\<close> has returned false.
\<close>

definition MaxScanTokenSize :: nat where
  "MaxScanTokenSize = 64 * 1024"

definition tokenTooLong :: "string \<Rightarrow> string \<Rightarrow> bool" where
  "tokenTooLong tok rest =
     (if rest = [] then MaxScanTokenSize \<le> length tok
      else MaxScanTokenSize < length tok + spaceWidth rest)"

lemma length_skipSpaces: "length (skipSpaces s) \<le> length s"
proof (induction s rule: skipSpaces.induct)
  case (1 s)
  show ?case
  proof (cases "spaceWidth s = 0")
    case True
    then show ?thesis by (simp add: skipSpaces.simps)
  next
    case False
    with "1" have "length (skipSpaces (drop (spaceWidth s) s)) \<le> length (drop (spaceWidth s) s)"
      by simp
    with False show ?thesis by (subst skipSpaces.simps) simp
  qed
qed

lemma length_splitWord: "length (snd (splitWord s)) \<le> length s"
  by (induction s) (auto split: prod.splits)

lemma spaceWidth_snd_splitWord: "snd (splitWord s) \<noteq> [] \<Longrightarrow> 0 < spaceWidth (snd (splitWord s))"
  by (induction s) (auto split: prod.splits)

lemma splitWord_concat: "fst (splitWord s) @ snd (splitWord s) = s"
  by (induction s) (auto split: prod.splits)

function scanWords :: "string \<Rightarrow> string list \<times> error option" where
  "scanWords data =
     (let d = skipSpaces data in
      if d = [] then ([], None)
      else
        (let tok = fst (splitWord d); rest = snd (splitWord d) in
         if tokenTooLong tok rest then ([], Some ErrTooLong)
         else
           (case scanWords (drop (spaceWidth rest) rest) of
              (toks, e) \<Rightarrow> (tok # toks, e))))"
  by pat_completeness auto
termination
proof (relation "measure length", goal_cases)
  case 1
  show ?case by simp
next
  case (2 data d tok rest)
  have le: "length rest \<le> length d"
    using 2 length_splitWord [of d] by simp
  have dd: "length d \<le> length data"
    using 2 length_skipSpaces [of data] by simp
  show ?case
  proof (cases "rest = []")
    case True
    with 2 dd show ?thesis by (cases d) auto
  next
    case False
    then have "0 < spaceWidth rest"
      using 2 spaceWidth_snd_splitWord [of d] by simp
    with False le dd show ?thesis by (cases rest) auto
  qed
qed

declare scanWords.simps [simp del]

subsection \<open>Classifying the kernel command line\<close>

text \<open>\<^verbatim>\<open>strings.HasPrefix\<close>.\<close>

definition HasPrefix :: "string \<Rightarrow> string \<Rightarrow> bool" where
  "HasPrefix s pfx = (length pfx \<le> length s \<and> take (length pfx) s = pfx)"

text \<open>
  \<^verbatim>\<open>strings.SplitN(s, "=", 2)\<close>: the text before the first \<^verbatim>\<open>=\<close> and the text after
  it, or \<open>s\<close> alone when it has no \<^verbatim>\<open>=\<close>.
\<close>

definition SplitN_eq_2 :: "string \<Rightarrow> string list" where
  "SplitN_eq_2 s =
     (if CHR ''='' \<in> set s
      then [takeWhile (\<lambda>c. c \<noteq> CHR ''='') s, tl (dropWhile (\<lambda>c. c \<noteq> CHR ''='') s)]
      else [s])"

text \<open>Indexing a Go slice: out of range is a run-time panic.\<close>

definition index :: "'a list \<Rightarrow> nat \<Rightarrow> error + 'a" where
  "index xs i = (if i < length xs then Inr (xs ! i) else Inl PanicIndexOutOfRange)"

definition validModes :: "string list" where
  "validModes = [''install'', ''recover'', ''run'']"

text \<open>\<^verbatim>\<open>strutil.ListContains\<close>.\<close>

definition ListContains :: "string list \<Rightarrow> string \<Rightarrow> bool" where
  "ListContains list str = (str \<in> set list)"

text \<open>
  The body of the \<^verbatim>\<open>for scanner.Scan()\<close> loop of \<^verbatim>\<open>whichModeAndRecoverSystem\<close>,
  over the tokens still to come. \<open>mode\<close> and \<open>sysLabel\<close> are the named results, which
  keep their values from one iteration to the next; \<open>scanErr\<close> is what
  \<^verbatim>\<open>scanner.Err()\<close> reports after the loop. The first \<^verbatim>\<open>if\<close> of the body either
  returns from the function (\<open>Inl\<close>) or leaves a value in \<open>mode\<close> (\<open>Inr\<close>).
\<close>

fun scanLoop :: "string list \<Rightarrow> string \<Rightarrow> string \<Rightarrow> error option \<Rightarrow> error + (string \<times> string)" where
  "scanLoop [] mode sysLabel scanErr =
     (case scanErr of
        Some e \<Rightarrow> Inl e
      | None \<Rightarrow> Inl ErrCannotDetect)"
| "scanLoop (text # rest) mode sysLabel scanErr =
     (case (if HasPrefix text ''snapd_recovery_mode=''
            then (case index (SplitN_eq_2 text) 1 of
                    Inl e \<Rightarrow> Inl (Inl e)
                  | Inr m \<Rightarrow>
                      (let mode1 = (if m = '''' then ''install'' else m) in
                       if \<not> ListContains validModes mode1 then Inl (Inl (ErrUnknownMode mode1))
                       else if mode1 = ''run'' then Inl (Inr (''run'', ''''))
                       else Inr mode1))
            else Inr mode) of
        Inl ret \<Rightarrow> ret
      | Inr mode' \<Rightarrow>
          (case (if HasPrefix text ''snapd_recovery_system=''
                 then index (SplitN_eq_2 text) 1
                 else Inr sysLabel) of
             Inl e \<Rightarrow> Inl e
           | Inr sysLabel' \<Rightarrow>
               if mode' \<noteq> '''' \<and> sysLabel' \<noteq> '''' then Inr (mode', sysLabel')
               else scanLoop rest mode' sysLabel' scanErr))"

definition whichModeAndRecoverSystem :: "string \<Rightarrow> error + (string \<times> string)" where
  "whichModeAndRecoverSystem cmdline =
     (case scanWords cmdline of (toks, scanErr) \<Rightarrow> scanLoop toks '''' '''' scanErr)"

subsection \<open>Paths\<close>

text \<open>
  \<^verbatim>\<open>filepath.Clean\<close>, \<^verbatim>\<open>filepath.Join\<close> and \<^verbatim>\<open>filepath.Base\<close> of the Go library,
  for the separator \<^verbatim>\<open>/\<close>. \<open>Clean\<close> works on the elements between separators:
  empty elements and \<^verbatim>\<open>.\<close> are dropped, \<^verbatim>\<open>..\<close> removes the element before it, is
  dropped at the root and is kept at the front of a relative path.
\<close>

fun splitSlash :: "string \<Rightarrow> string list" where
  "splitSlash [] = [[]]"
| "splitSlash (c # cs) =
     (if c = CHR ''/'' then [] # splitSlash cs
      else (case splitSlash cs of
              e # es \<Rightarrow> (c # e) # es
            | [] \<Rightarrow> [[c]]))"

fun cleanElems :: "bool \<Rightarrow> string list \<Rightarrow> string list \<Rightarrow> string list" where
  "cleanElems rooted out [] = out"
| "cleanElems rooted out (e # es) =
     (if e = '''' \<or> e = ''.'' then cleanElems rooted out es
      else if e = ''..'' then
        (if out \<noteq> [] \<and> last out \<noteq> ''..'' then cleanElems rooted (butlast out) es
         else if \<not> rooted then cleanElems rooted (out @ [''..'']) es
         else cleanElems rooted out es)
      else cleanElems rooted (out @ [e]) es)"

text \<open>\<^verbatim>\<open>strings.Join\<close>.\<close>

fun strings_Join :: "string list \<Rightarrow> string \<Rightarrow> string" where
  "strings_Join [] sep = ''''"
| "strings_Join [e] sep = e"
| "strings_Join (e # es) sep = e @ sep @ strings_Join es sep"

definition filepath_Clean :: "string \<Rightarrow> string" where
  "filepath_Clean path =
     (let rooted = (path \<noteq> [] \<and> hd path = CHR ''/'');
          out = (if rooted then ''/'' else '''') @
                strings_Join (cleanElems rooted [] (splitSlash path)) ''/''
      in if out = '''' then ''.'' else out)"

definition filepath_Join :: "string list \<Rightarrow> string" where
  "filepath_Join elem =
     (case dropWhile (\<lambda>e. e = '''') elem of
        [] \<Rightarrow> ''''
      | es \<Rightarrow> filepath_Clean (strings_Join es ''/''))"

definition filepath_Base :: "string \<Rightarrow> string" where
  "filepath_Base path =
     (if path = '''' then ''.''
      else
        (let stripped = rev (dropWhile (\<lambda>c. c = CHR ''/'') (rev path));
             lastElem = rev (takeWhile (\<lambda>c. c \<noteq> CHR ''/'') (rev stripped))
         in if lastElem = '''' then ''/'' else lastElem))"

subsection \<open>Output: mount tuples\<close>

text \<open>
  One line written to \<^verbatim>\<open>stdout\<close> is one mount tuple: the words before the source
  (\<^verbatim>\<open>--type=tmpfs\<close>), the source and the target. \<open>fmt_tuple\<close> is the line as
  \<^verbatim>\<open>fmt.Fprintf\<close> writes it, \<open>stdout_text\<close> everything written.
\<close>

record mount_tuple =
  options :: "string list"
  source :: string
  target :: string

definition tuple :: "string \<Rightarrow> string \<Rightarrow> mount_tuple" where
  "tuple src tgt = \<lparr>options = [], source = src, target = tgt\<rparr>"

definition fmt_tuple :: "mount_tuple \<Rightarrow> string" where
  "fmt_tuple t =
     concat (map (\<lambda>opt. opt @ '' '') (options t)) @ source t @ '' '' @ target t @ [CHR 0x0A]"

definition stdout_text :: "mount_tuple list \<Rightarrow> string" where
  "stdout_text ts = concat (map fmt_tuple ts)"

subsection \<open>The world the command runs in\<close>

text \<open>
  The collaborators of the command are packages whose code is not part of this file;
  what they answer is a field of the record \<open>world\<close>.
  \<^item> \<open>ReadFile\<close>: \<^verbatim>\<open>ioutil.ReadFile\<close>.
  \<^item> \<open>IsMounted\<close>: \<^verbatim>\<open>osutil.IsMounted\<close>, the mount probe.
  \<^item> \<open>seed_Open\<close>: \<^verbatim>\<open>seed.Open\<close>; a \<open>Seed\<close> holds what its methods
    \<^verbatim>\<open>LoadAssertions\<close>, \<^verbatim>\<open>LoadMeta\<close> and \<^verbatim>\<open>EssentialSnaps\<close> return.
  \<^item> \<open>snap_Open\<close>: \<^verbatim>\<open>snap.Open\<close>; the container it returns is identified with the
    path it was opened at.
  \<^item> \<open>ReadInfoFromSnapFile\<close>: \<^verbatim>\<open>snap.ReadInfoFromSnapFile\<close> followed by
    \<^verbatim>\<open>GetType\<close>.
  \<^item> \<open>SnapBlobDir\<close>: the variable \<^verbatim>\<open>dirs.SnapBlobDir\<close>.
\<close>

datatype snap_Type = TypeApp | TypeGadget | TypeKernel | TypeBase | TypeOS | TypeSnapd

type_synonym side_info = string

record seed_Snap =
  Path :: string
  SideInfo :: side_info

record Seed =
  LoadAssertions :: "error option"
  LoadMeta :: "error option"
  EssentialSnaps :: "seed_Snap list"

record Modeenv =
  Mode :: string
  RecoverySystem :: string
  Base :: string
  Kernel :: string

record world =
  ReadFile :: "string \<Rightarrow> error + string"
  IsMounted :: "string \<Rightarrow> error + bool"
  seed_Open :: "string \<Rightarrow> string \<Rightarrow> error + Seed"
  snap_Open :: "string \<Rightarrow> error + string"
  ReadInfoFromSnapFile :: "string \<Rightarrow> side_info \<Rightarrow> error + snap_Type"
  SnapBlobDir :: string
  modeenvFile :: "string \<Rightarrow> error + Modeenv"
  modeenvWriteErr :: "string \<Rightarrow> error option"

text \<open>
  Modelled from the spec: \<^verbatim>\<open>boot.ReadModeenv\<close> and \<^verbatim>\<open>Modeenv.Write\<close> of package
  \<^verbatim>\<open>boot\<close>, which is not among the sources. The spec has the modeenv as a record
  persisted under the data partition's system-data tree, written by install mode and
  read back by run mode, with a missing, malformed or unwritable modeenv an error.
  \<open>modeenvFile w rootdir\<close> is what reading under \<open>rootdir\<close> gives in the world \<open>w\<close>;
  a write under \<open>rootdir\<close> either fails with \<open>modeenvWriteErr w rootdir\<close> and leaves
  the world as it is, or makes the record the one read back from there.
\<close>

definition ReadModeenv :: "world \<Rightarrow> string \<Rightarrow> error + Modeenv" where
  "ReadModeenv w rootdir = modeenvFile w rootdir"

definition Modeenv_Write :: "Modeenv \<Rightarrow> string \<Rightarrow> world \<Rightarrow> error option \<times> world" where
  "Modeenv_Write m rootdir w =
     (case modeenvWriteErr w rootdir of
        Some e \<Rightarrow> (Some e, w)
      | None \<Rightarrow> (None, w\<lparr>modeenvFile := (modeenvFile w)(rootdir := Inr m)\<rparr>))"

definition procCmdline :: string where
  "procCmdline = ''/proc/cmdline''"

definition runMnt :: string where
  "runMnt = ''/run/mnt''"

subsection \<open>The mode generators\<close>

text \<open>
  A generator returns what it wrote to \<^verbatim>\<open>stdout\<close> (also when it then fails: the
  lines written before an error stay written), the error it returns (\<open>None\<close> for
  \<^verbatim>\<open>nil\<close>) and the world it leaves behind.
\<close>

type_synonym outcome = "mount_tuple list \<times> error option \<times> world"

text \<open>The \<^verbatim>\<open>switch info.GetType()\<close> of install mode.\<close>

definition essentialSnapMount :: "bool \<Rightarrow> bool \<Rightarrow> bool \<Rightarrow> string \<Rightarrow> snap_Type \<Rightarrow> mount_tuple list" where
  "essentialSnapMount isBaseMounted isKernelMounted isSnapdMounted path typ =
     (case typ of
        TypeBase \<Rightarrow>
          if \<not> isBaseMounted then [tuple path (filepath_Join [runMnt, ''base''])] else []
      | TypeKernel \<Rightarrow>
          if \<not> isKernelMounted then [tuple path (filepath_Join [runMnt, ''kernel''])] else []
      | TypeSnapd \<Rightarrow>
          if \<not> isSnapdMounted then [tuple path (filepath_Join [runMnt, ''snapd''])] else []
      | _ \<Rightarrow> [])"

text \<open>The loop \<^verbatim>\<open>for _, essentialSnap := range systemSeed.EssentialSnaps()\<close>.\<close>

fun essentialSnapsLoop ::
  "world \<Rightarrow> bool \<Rightarrow> bool \<Rightarrow> bool \<Rightarrow> seed_Snap list \<Rightarrow> mount_tuple list \<times> error option" where
  "essentialSnapsLoop w isBaseMounted isKernelMounted isSnapdMounted [] = ([], None)"
| "essentialSnapsLoop w isBaseMounted isKernelMounted isSnapdMounted (essentialSnap # rest) =
     (case snap_Open w (Path essentialSnap) of
        Inl e \<Rightarrow> ([], Some e)
      | Inr snapf \<Rightarrow>
          (case ReadInfoFromSnapFile w snapf (SideInfo essentialSnap) of
             Inl e \<Rightarrow> ([], Some e)
           | Inr typ \<Rightarrow>
               (case essentialSnapsLoop w isBaseMounted isKernelMounted isSnapdMounted rest of
                  (out, err) \<Rightarrow>
                    (essentialSnapMount isBaseMounted isKernelMounted isSnapdMounted
                       (Path essentialSnap) typ @ out, err))))"

text \<open>
  The block of install mode that loads the recovery system and writes the mounts of
  the essential snaps (the body of
  \<^verbatim>\<open>if !isBaseMounted || !isKernelMounted || !isSnapdMounted\<close>).
\<close>

definition loadRecoverySystem ::
  "world \<Rightarrow> string \<Rightarrow> string \<Rightarrow> bool \<Rightarrow> bool \<Rightarrow> bool \<Rightarrow> mount_tuple list \<times> error option" where
  "loadRecoverySystem w seedDir recoverySystem isBaseMounted isKernelMounted isSnapdMounted =
     (case seed_Open w seedDir recoverySystem of
        Inl e \<Rightarrow> ([], Some e)
      | Inr systemSeed \<Rightarrow>
          (case LoadAssertions systemSeed of
             Some e \<Rightarrow> ([], Some e)
           | None \<Rightarrow>
               (case LoadMeta systemSeed of
                  Some e \<Rightarrow> ([], Some e)
                | None \<Rightarrow>
                    essentialSnapsLoop w isBaseMounted isKernelMounted isSnapdMounted
                      (EssentialSnaps systemSeed))))"

definition generateMountsModeInstall :: "string \<Rightarrow> world \<Rightarrow> outcome" where
  "generateMountsModeInstall recoverySystem w =
     (let seedDir = filepath_Join [runMnt, ''ubuntu-seed''] in
      case IsMounted w seedDir of
        Inl e \<Rightarrow> ([], Some e, w)
      | Inr isMounted \<Rightarrow>
          if \<not> isMounted then ([tuple ''/dev/disk/by-label/ubuntu-seed'' seedDir], None, w)
          else
            (case IsMounted w (filepath_Join [runMnt, ''base'']) of
               Inl e \<Rightarrow> ([], Some e, w)
             | Inr isBaseMounted \<Rightarrow>
            (case IsMounted w (filepath_Join [runMnt, ''kernel'']) of
               Inl e \<Rightarrow> ([], Some e, w)
             | Inr isKernelMounted \<Rightarrow>
            (case IsMounted w (filepath_Join [runMnt, ''snapd'']) of
               Inl e \<Rightarrow> ([], Some e, w)
             | Inr isSnapdMounted \<Rightarrow>
            (case (if \<not> isBaseMounted \<or> \<not> isKernelMounted \<or> \<not> isSnapdMounted
                   then loadRecoverySystem w seedDir recoverySystem
                          isBaseMounted isKernelMounted isSnapdMounted
                   else ([], None)) of
               (out, Some e) \<Rightarrow> (out, Some e, w)
             | (out, None) \<Rightarrow>
            (case IsMounted w (filepath_Join [runMnt, ''ubuntu-data'']) of
               Inl e \<Rightarrow> (out, Some e, w)
             | Inr isMounted \<Rightarrow>
                 if \<not> isMounted
                 then (out @ [\<lparr>options = [''--type=tmpfs''], source = ''tmpfs'',
                               target = ''/run/mnt/ubuntu-data''\<rparr>], None, w)
                 else
                   (let modeEnv = \<lparr>Mode = ''install'', RecoverySystem = recoverySystem,
                                    Base = '''', Kernel = ''''\<rparr> in
                    case Modeenv_Write modeEnv
                           (filepath_Join [runMnt, ''ubuntu-data'', ''system-data'']) w of
                      (err, w') \<Rightarrow> (out, err, w'))))))))"

definition generateMountsModeRecover :: "string \<Rightarrow> world \<Rightarrow> outcome" where
  "generateMountsModeRecover recoverySystem w = ([], Some ErrRecoverNotImplemented, w)"

text \<open>The loop \<^verbatim>\<open>for _, d := range []string{seedDir, bootDir}\<close> of run mode.\<close>

fun basicPartitionsLoop :: "world \<Rightarrow> string list \<Rightarrow> mount_tuple list \<times> error option" where
  "basicPartitionsLoop w [] = ([], None)"
| "basicPartitionsLoop w (d # ds) =
     (case IsMounted w d of
        Inl e \<Rightarrow> ([], Some e)
      | Inr isMounted \<Rightarrow>
          (case basicPartitionsLoop w ds of
             (out, err) \<Rightarrow>
               ((if \<not> isMounted
                 then [tuple (''/dev/disk/by-label/'' @ filepath_Base d) d]
                 else []) @ out, err)))"

definition generateMountsModeRun :: "world \<Rightarrow> outcome" where
  "generateMountsModeRun w =
     (let seedDir = filepath_Join [runMnt, ''ubuntu-seed''];
          bootDir = filepath_Join [runMnt, ''ubuntu-boot''];
          dataDir = filepath_Join [runMnt, ''ubuntu-data''] in
      case basicPartitionsLoop w [seedDir, bootDir] of
        (out1, Some e) \<Rightarrow> (out1, Some e, w)
      | (out1, None) \<Rightarrow>
     (case IsMounted w dataDir of
        Inl e \<Rightarrow> (out1, Some e, w)
      | Inr isDataMounted \<Rightarrow>
          if \<not> isDataMounted
          then (out1 @ [tuple (''/dev/disk/by-label/'' @ filepath_Base dataDir) dataDir], None, w)
          else
     (case ReadModeenv w (filepath_Join [dataDir, ''system-data'']) of
        Inl e \<Rightarrow> (out1, Some e, w)
      | Inr modeEnv \<Rightarrow>
     (case IsMounted w (filepath_Join [runMnt, ''base'']) of
        Inl e \<Rightarrow> (out1, Some e, w)
      | Inr isBaseMounted \<Rightarrow>
          (let out2 = out1 @
                 (if \<not> isBaseMounted
                  then [tuple (filepath_Join [dataDir, ''system-data'', SnapBlobDir w, Base modeEnv])
                              (filepath_Join [runMnt, ''base''])]
                  else []) in
           case IsMounted w (filepath_Join [runMnt, ''kernel'']) of
             Inl e \<Rightarrow> (out2, Some e, w)
           | Inr isKernelMounted \<Rightarrow>
               (out2 @
                  (if \<not> isKernelMounted
                   then [tuple (filepath_Join [dataDir, ''system-data'', SnapBlobDir w, Kernel modeEnv])
                               (filepath_Join [runMnt, ''kernel''])]
                   else []), None, w))))))"

subsection \<open>The entry point\<close>

definition generateInitramfsMounts :: "world \<Rightarrow> outcome" where
  "generateInitramfsMounts w =
     (case ReadFile w procCmdline of
        Inl e \<Rightarrow> ([], Some e, w)
      | Inr cmdline \<Rightarrow>
          (case whichModeAndRecoverSystem cmdline of
             Inl e \<Rightarrow> ([], Some e, w)
           | Inr (mode, recoverySystem) \<Rightarrow>
               if mode = ''recover'' then generateMountsModeRecover recoverySystem w
               else if mode = ''install'' then generateMountsModeInstall recoverySystem w
               else if mode = ''run'' then generateMountsModeRun w
               else ([], Some ErrModeNotHandled, w)))"

subsection \<open>The mount points\<close>

text \<open>
  The values of the paths the generators compute with \<^verbatim>\<open>filepath.Join\<close> from
  \<^verbatim>\<open>runMnt\<close>, as constants of their own.
\<close>

definition seedDir :: string where
  "seedDir = ''/run/mnt/ubuntu-seed''"

definition bootDir :: string where
  "bootDir = ''/run/mnt/ubuntu-boot''"

definition dataDir :: string where
  "dataDir = ''/run/mnt/ubuntu-data''"

definition baseDir :: string where
  "baseDir = ''/run/mnt/base''"

definition kernelDir :: string where
  "kernelDir = ''/run/mnt/kernel''"

definition snapdDir :: string where
  "snapdDir = ''/run/mnt/snapd''"

definition systemDataDir :: string where
  "systemDataDir = ''/run/mnt/ubuntu-data/system-data''"

subsection \<open>Example worlds\<close>

text \<open>
  A seed with the three essential snaps, and a world given by the kernel command
  line, the list of mounted paths and what reading the modeenv gives.
\<close>

definition exampleSeed :: Seed where
  "exampleSeed =
     \<lparr>LoadAssertions = None, LoadMeta = None,
      EssentialSnaps =
        [\<lparr>Path = ''/run/mnt/ubuntu-seed/snaps/snapd_1.snap'', SideInfo = ''snapd''\<rparr>,
         \<lparr>Path = ''/run/mnt/ubuntu-seed/snaps/pc-kernel_1.snap'', SideInfo = ''pc-kernel''\<rparr>,
         \<lparr>Path = ''/run/mnt/ubuntu-seed/snaps/core20_1.snap'', SideInfo = ''core20''\<rparr>]\<rparr>"

definition exampleModeenv :: Modeenv where
  "exampleModeenv =
     \<lparr>Mode = ''run'', RecoverySystem = '''',
      Base = ''core20_5.snap'', Kernel = ''pc-kernel_10.snap''\<rparr>"

definition noModeenv :: "error + Modeenv" where
  "noModeenv = Inl (ErrExternal ''no modeenv'')"

definition exampleWorld :: "string \<Rightarrow> string list \<Rightarrow> error + Modeenv \<Rightarrow> world" where
  "exampleWorld cmdline mounted menv =
     \<lparr>ReadFile = (\<lambda>p. if p = ''/proc/cmdline'' then Inr cmdline
                        else Inl (ErrExternal ''no such file or directory'')),
      IsMounted = (\<lambda>p. Inr (p \<in> set mounted)),
      seed_Open = (\<lambda>d l. if d = seedDir \<and> l = ''20231001'' then Inr exampleSeed
                          else Inl (ErrExternal ''cannot open seed'')),
      snap_Open = (\<lambda>p. Inr p),
      ReadInfoFromSnapFile =
        (\<lambda>f si. if si = ''snapd'' then Inr TypeSnapd
                 else if si = ''pc-kernel'' then Inr TypeKernel
                 else if si = ''core20'' then Inr TypeBase
                 else Inr TypeApp),
      SnapBlobDir = ''/var/lib/snapd/snaps'',
      modeenvFile = (\<lambda>d. if d = systemDataDir then menv
                          else Inl (ErrExternal ''no modeenv'')),
      modeenvWriteErr = (\<lambda>d. None)\<rparr>"

definition installCmdline :: string where
  "installCmdline = ''snapd_recovery_mode=install snapd_recovery_system=20231001''"

definition runCmdline :: string where
  "runCmdline = ''snapd_recovery_mode=run''"

definition allMounted :: "string list" where
  "allMounted = [seedDir, bootDir, dataDir, baseDir, kernelDir, snapdDir]"

definition basicMounted :: "string list" where
  "basicMounted = [seedDir, bootDir, dataDir]"

section \<open>Properties\<close>

subsection \<open>The paths the generators use\<close>

lemma seedDir_eq: "filepath_Join [runMnt, ''ubuntu-seed''] = seedDir"
  by (simp add: filepath_Join_def filepath_Clean_def runMnt_def seedDir_def)

lemma bootDir_eq: "filepath_Join [runMnt, ''ubuntu-boot''] = bootDir"
  by (simp add: filepath_Join_def filepath_Clean_def runMnt_def bootDir_def)

lemma dataDir_eq: "filepath_Join [runMnt, ''ubuntu-data''] = dataDir"
  by (simp add: filepath_Join_def filepath_Clean_def runMnt_def dataDir_def)

lemma baseDir_eq: "filepath_Join [runMnt, ''base''] = baseDir"
  by (simp add: filepath_Join_def filepath_Clean_def runMnt_def baseDir_def)

lemma kernelDir_eq: "filepath_Join [runMnt, ''kernel''] = kernelDir"
  by (simp add: filepath_Join_def filepath_Clean_def runMnt_def kernelDir_def)

lemma snapdDir_eq: "filepath_Join [runMnt, ''snapd''] = snapdDir"
  by (simp add: filepath_Join_def filepath_Clean_def runMnt_def snapdDir_def)

lemma installSystemData_eq:
  "filepath_Join [runMnt, ''ubuntu-data'', ''system-data''] = systemDataDir"
  by (simp add: filepath_Join_def filepath_Clean_def runMnt_def systemDataDir_def)

lemma runSystemData_eq: "filepath_Join [dataDir, ''system-data''] = systemDataDir"
  by (simp add: filepath_Join_def filepath_Clean_def dataDir_def systemDataDir_def)

lemma tmpfs_target_eq: "''/run/mnt/ubuntu-data'' = dataDir"
  by (simp add: dataDir_def)

lemma Base_seedDir: "filepath_Base seedDir = ''ubuntu-seed''"
  by (simp add: filepath_Base_def seedDir_def)

lemma Base_bootDir: "filepath_Base bootDir = ''ubuntu-boot''"
  by (simp add: filepath_Base_def bootDir_def)

lemma Base_dataDir: "filepath_Base dataDir = ''ubuntu-data''"
  by (simp add: filepath_Base_def dataDir_def)

lemmas path_eqs =
  seedDir_eq bootDir_eq dataDir_eq baseDir_eq kernelDir_eq snapdDir_eq
  installSystemData_eq runSystemData_eq tmpfs_target_eq Base_seedDir Base_bootDir Base_dataDir

lemmas dir_defs =
  seedDir_def bootDir_def dataDir_def baseDir_def kernelDir_def snapdDir_def systemDataDir_def

lemma dirs_distinct:
  "distinct [seedDir, bootDir, dataDir, baseDir, kernelDir, snapdDir]"
  by (simp add: dir_defs)

lemma mounted_all [simp]:
  "IsMounted (exampleWorld c allMounted m) seedDir = Inr True"
  "IsMounted (exampleWorld c allMounted m) bootDir = Inr True"
  "IsMounted (exampleWorld c allMounted m) dataDir = Inr True"
  "IsMounted (exampleWorld c allMounted m) baseDir = Inr True"
  "IsMounted (exampleWorld c allMounted m) kernelDir = Inr True"
  "IsMounted (exampleWorld c allMounted m) snapdDir = Inr True"
  by (simp_all add: exampleWorld_def allMounted_def)

lemma mounted_none [simp]: "IsMounted (exampleWorld c [] m) p = Inr False"
  by (simp add: exampleWorld_def)

lemma example_modeenv [simp]: "ReadModeenv (exampleWorld c ms m) systemDataDir = m"
  by (simp add: exampleWorld_def ReadModeenv_def systemDataDir_def)

subsection \<open>Facts about the scan loop\<close>

lemma index_SplitN_eq_2:
  "CHR ''='' \<in> set s \<Longrightarrow>
   index (SplitN_eq_2 s) 1 = Inr (tl (dropWhile (\<lambda>c. c \<noteq> CHR ''='') s))"
  by (simp add: index_def SplitN_eq_2_def)

lemma HasPrefix_eq_in_set:
  "HasPrefix s pfx \<Longrightarrow> CHR ''='' \<in> set pfx \<Longrightarrow> CHR ''='' \<in> set s"
  unfolding HasPrefix_def by (metis in_set_takeD)

lemma HasPrefix_append: "HasPrefix (pfx @ v) pfx"
  by (simp add: HasPrefix_def)

lemma mode_value: "index (SplitN_eq_2 (''snapd_recovery_mode='' @ v)) 1 = Inr v"
  by (simp add: index_def SplitN_eq_2_def)

lemma HasPrefix_iff: "HasPrefix s pfx \<longleftrightarrow> (\<exists>r. s = pfx @ r)"
  unfolding HasPrefix_def
  by (metis append_eq_conv_conj append_take_drop_id length_append le_add1)

lemma not_both_prefixes:
  "HasPrefix t ''snapd_recovery_mode='' \<Longrightarrow> \<not> HasPrefix t ''snapd_recovery_system=''"
  by (auto simp: HasPrefix_iff)

lemma system_value_ok:
  "HasPrefix t ''snapd_recovery_system='' \<Longrightarrow> \<exists>v. index (SplitN_eq_2 t) 1 = Inr v"
  using HasPrefix_eq_in_set [of t "''snapd_recovery_system=''"] index_SplitN_eq_2 [of t]
  by simp

lemma scanLoop_no_mode_step:
  assumes "\<not> HasPrefix t ''snapd_recovery_mode=''"
  shows "\<exists>sl'. scanLoop (t # ts) '''' sl err = scanLoop ts '''' sl' err"
proof (cases "HasPrefix t ''snapd_recovery_system=''")
  case True
  then obtain v where "index (SplitN_eq_2 t) 1 = Inr v"
    using system_value_ok by blast
  with assms True show ?thesis by auto
next
  case False
  with assms show ?thesis by auto
qed

lemma scanLoop_skip_prefix:
  assumes "\<forall>t \<in> set pre. \<not> HasPrefix t ''snapd_recovery_mode=''"
  shows "\<exists>sl'. scanLoop (pre @ ts) '''' sl err = scanLoop ts '''' sl' err"
  using assms
proof (induction pre arbitrary: sl)
  case Nil
  then show ?case by auto
next
  case (Cons t pre)
  then obtain sl1 where "scanLoop ((t # pre) @ ts) '''' sl err = scanLoop (pre @ ts) '''' sl1 err"
    using scanLoop_no_mode_step [of t "pre @ ts" sl err] by auto
  moreover obtain sl2 where "scanLoop (pre @ ts) '''' sl1 err = scanLoop ts '''' sl2 err"
    using Cons by force
  ultimately show ?case by auto
qed

lemma scanLoop_run_token:
  "scanLoop (''snapd_recovery_mode=run'' # post) '''' sl err = Inr (''run'', '''')"
  using mode_value [of "''run''"]
  by (simp add: HasPrefix_def ListContains_def validModes_def)

lemma scanLoop_unknown_token:
  assumes "v \<noteq> ''''" and "\<not> ListContains validModes v"
  shows "scanLoop ((''snapd_recovery_mode='' @ v) # post) '''' sl err = Inl (ErrUnknownMode v)"
  using assms mode_value [of v] HasPrefix_append [of "''snapd_recovery_mode=''" v]
  by (simp del: append.simps)

lemma scanLoop_no_mode:
  assumes "\<forall>t \<in> set toks. \<not> HasPrefix t ''snapd_recovery_mode=''"
  shows "scanLoop toks '''' sl err = Inl (case err of None \<Rightarrow> ErrCannotDetect | Some e \<Rightarrow> e)"
proof -
  obtain sl' where "scanLoop (toks @ []) '''' sl err = scanLoop [] '''' sl' err"
    using scanLoop_skip_prefix [OF assms] by blast
  then show ?thesis by (simp split: option.splits)
qed

subsection \<open>Install mode\<close>

text \<open>
  C8. In install mode, when the mount probe reports the seed partition as not mounted,
  the generator writes exactly one mount tuple, with source
  \<^verbatim>\<open>/dev/disk/by-label/ubuntu-seed\<close> and as target the directory \<^verbatim>\<open>ubuntu-seed\<close> under
  the mount root, returns no error and leaves the world as it found it.
\<close>

theorem install_seed_not_mounted:
  assumes "IsMounted w seedDir = Inr False"
  shows "generateMountsModeInstall recoverySystem w =
           ([tuple ''/dev/disk/by-label/ubuntu-seed'' (filepath_Join [runMnt, ''ubuntu-seed''])],
            None, w)
         \<and> stdout_text (fst (generateMountsModeInstall recoverySystem w)) =
           ''/dev/disk/by-label/ubuntu-seed /run/mnt/ubuntu-seed'' @ [CHR 0x0A]"
proof -
  have "generateMountsModeInstall recoverySystem w =
          ([tuple ''/dev/disk/by-label/ubuntu-seed'' seedDir], None, w)"
    using assms by (simp add: generateMountsModeInstall_def seedDir_eq)
  then show ?thesis
    by (simp add: seedDir_eq stdout_text_def fmt_tuple_def tuple_def seedDir_def)
qed

theorem install_seed_not_mounted_witness:
  "IsMounted (exampleWorld installCmdline [] noModeenv) seedDir = Inr False
   \<and> generateMountsModeInstall ''20231001'' (exampleWorld installCmdline [] noModeenv) =
     ([\<lparr>options = [], source = ''/dev/disk/by-label/ubuntu-seed'',
        target = ''/run/mnt/ubuntu-seed''\<rparr>], None,
      exampleWorld installCmdline [] noModeenv)"
  using install_seed_not_mounted [of "exampleWorld installCmdline [] noModeenv" "''20231001''"]
  by (simp add: tuple_def seedDir_eq seedDir_def)

text \<open>
  C5. In install mode, once the seed, base, kernel and snapd mount points and the data
  partition are all mounted, the generator writes nothing to its output and writes the
  modeenv with mode \<^verbatim>\<open>install\<close> and the recovery system it was called with under
  the data partition's \<^verbatim>\<open>system-data\<close>. It returns what the write returns, and the
  world changes in nothing but that modeenv.
\<close>

theorem install_converged_writes_modeenv:
  assumes "IsMounted w seedDir = Inr True"
      and "IsMounted w baseDir = Inr True"
      and "IsMounted w kernelDir = Inr True"
      and "IsMounted w snapdDir = Inr True"
      and "IsMounted w dataDir = Inr True"
  shows "generateMountsModeInstall recoverySystem w =
           (case modeenvWriteErr w systemDataDir of
              None \<Rightarrow>
                ([], None,
                 w\<lparr>modeenvFile := (modeenvFile w)
                     (systemDataDir :=
                        Inr \<lparr>Mode = ''install'', RecoverySystem = recoverySystem,
                             Base = '''', Kernel = ''''\<rparr>)\<rparr>)
            | Some e \<Rightarrow> ([], Some e, w))"
  using assms
  by (simp add: generateMountsModeInstall_def path_eqs Modeenv_Write_def split: option.splits)

theorem install_converged_writes_modeenv_witness:
  "fst (generateMountsModeInstall ''20231001'' (exampleWorld installCmdline allMounted noModeenv)) = []
   \<and> fst (snd (generateMountsModeInstall ''20231001''
                 (exampleWorld installCmdline allMounted noModeenv))) = None
   \<and> ReadModeenv (snd (snd (generateMountsModeInstall ''20231001''
                 (exampleWorld installCmdline allMounted noModeenv))))
        ''/run/mnt/ubuntu-data/system-data'' =
       Inr \<lparr>Mode = ''install'', RecoverySystem = ''20231001'', Base = '''', Kernel = ''''\<rparr>"
proof -
  have "modeenvWriteErr (exampleWorld installCmdline allMounted noModeenv) systemDataDir = None"
    by (simp add: exampleWorld_def)
  then show ?thesis
    using install_converged_writes_modeenv
            [of "exampleWorld installCmdline allMounted noModeenv" "''20231001''"]
    by (simp add: ReadModeenv_def systemDataDir_def)
qed

subsection \<open>Run mode\<close>

lemma basic_unfold:
  "basicPartitionsLoop w [seedDir, bootDir] =
     (case IsMounted w seedDir of
        Inl e \<Rightarrow> ([], Some e)
      | Inr ms \<Rightarrow>
          (case IsMounted w bootDir of
             Inl e \<Rightarrow>
               (if \<not> ms then [tuple ''/dev/disk/by-label/ubuntu-seed'' seedDir] else [], Some e)
           | Inr mb \<Rightarrow>
               ((if \<not> ms then [tuple ''/dev/disk/by-label/ubuntu-seed'' seedDir] else []) @
                (if \<not> mb then [tuple ''/dev/disk/by-label/ubuntu-boot'' bootDir] else []),
                None)))"
  by (simp add: path_eqs split: sum.splits)

lemma run_unfold:
  "generateMountsModeRun w =
     (case basicPartitionsLoop w [seedDir, bootDir] of
        (out1, Some e) \<Rightarrow> (out1, Some e, w)
      | (out1, None) \<Rightarrow>
     (case IsMounted w dataDir of
        Inl e \<Rightarrow> (out1, Some e, w)
      | Inr isDataMounted \<Rightarrow>
          if \<not> isDataMounted
          then (out1 @ [tuple ''/dev/disk/by-label/ubuntu-data'' dataDir], None, w)
          else
     (case ReadModeenv w systemDataDir of
        Inl e \<Rightarrow> (out1, Some e, w)
      | Inr modeEnv \<Rightarrow>
     (case IsMounted w baseDir of
        Inl e \<Rightarrow> (out1, Some e, w)
      | Inr isBaseMounted \<Rightarrow>
           (case IsMounted w kernelDir of
             Inl e \<Rightarrow> (out1 @
                 (if \<not> isBaseMounted
                  then [tuple (filepath_Join [dataDir, ''system-data'', SnapBlobDir w, Base modeEnv])
                              baseDir]
                  else []), Some e, w)
           | Inr isKernelMounted \<Rightarrow>
               (out1 @
                 (if \<not> isBaseMounted
                  then [tuple (filepath_Join [dataDir, ''system-data'', SnapBlobDir w, Base modeEnv])
                              baseDir]
                  else []) @
                  (if \<not> isKernelMounted
                   then [tuple (filepath_Join [dataDir, ''system-data'', SnapBlobDir w, Kernel modeEnv])
                               kernelDir]
                   else []), None, w))))))"
  unfolding generateMountsModeRun_def Let_def path_eqs
  by (simp split: prod.splits option.splits sum.splits)

lemmas run_eval = run_unfold basic_unfold Base_seedDir Base_bootDir

lemma tuple_sel [simp]: "target (tuple s t) = t" "source (tuple s t) = s" "options (tuple s t) = []"
  by (simp_all add: tuple_def)

lemma dir_neq [simp]:
  "seedDir \<noteq> bootDir" "seedDir \<noteq> dataDir" "seedDir \<noteq> baseDir" "seedDir \<noteq> kernelDir" "seedDir \<noteq> snapdDir"
  "bootDir \<noteq> seedDir" "bootDir \<noteq> dataDir" "bootDir \<noteq> baseDir" "bootDir \<noteq> kernelDir" "bootDir \<noteq> snapdDir"
  "dataDir \<noteq> seedDir" "dataDir \<noteq> bootDir" "dataDir \<noteq> baseDir" "dataDir \<noteq> kernelDir" "dataDir \<noteq> snapdDir"
  "baseDir \<noteq> seedDir" "baseDir \<noteq> bootDir" "baseDir \<noteq> dataDir" "baseDir \<noteq> kernelDir" "baseDir \<noteq> snapdDir"
  "kernelDir \<noteq> seedDir" "kernelDir \<noteq> bootDir" "kernelDir \<noteq> dataDir" "kernelDir \<noteq> baseDir" "kernelDir \<noteq> snapdDir"
  "snapdDir \<noteq> seedDir" "snapdDir \<noteq> bootDir" "snapdDir \<noteq> dataDir" "snapdDir \<noteq> baseDir" "snapdDir \<noteq> kernelDir"
  using dirs_distinct by auto

lemma mounted_basic [simp]:
  "IsMounted (exampleWorld c basicMounted m) seedDir = Inr True"
  "IsMounted (exampleWorld c basicMounted m) bootDir = Inr True"
  "IsMounted (exampleWorld c basicMounted m) dataDir = Inr True"
  "IsMounted (exampleWorld c basicMounted m) baseDir = Inr False"
  "IsMounted (exampleWorld c basicMounted m) kernelDir = Inr False"
  by (simp_all add: exampleWorld_def basicMounted_def dir_defs)

lemma example_blob_paths:
  "filepath_Join [dataDir, ''system-data'', SnapBlobDir (exampleWorld c ms m), Base exampleModeenv] =
     ''/run/mnt/ubuntu-data/system-data/var/lib/snapd/snaps/core20_5.snap''"
  "filepath_Join [dataDir, ''system-data'', SnapBlobDir (exampleWorld c ms m), Kernel exampleModeenv] =
     ''/run/mnt/ubuntu-data/system-data/var/lib/snapd/snaps/pc-kernel_10.snap''"
  by (simp_all add: filepath_Join_def filepath_Clean_def dataDir_def exampleWorld_def exampleModeenv_def)

text \<open>
  C1, amended to what the code does. In run mode with nothing mounted, one invocation
  writes the mount tuples of the seed, the boot and the data partition together. A tuple
  for base or kernel is written only by an invocation that finds the data partition
  mounted; with seed, boot and data mounted and the modeenv read, the invocation writes
  the base and kernel tuples, and once those two are mounted as well it writes nothing.
\<close>

theorem run_steps:
  "(IsMounted w seedDir = Inr False \<and> IsMounted w bootDir = Inr False
      \<and> IsMounted w dataDir = Inr False \<longrightarrow>
        fst (generateMountsModeRun w) =
          [tuple ''/dev/disk/by-label/ubuntu-seed'' seedDir,
           tuple ''/dev/disk/by-label/ubuntu-boot'' bootDir,
           tuple ''/dev/disk/by-label/ubuntu-data'' dataDir]
        \<and> fst (snd (generateMountsModeRun w)) = None)
   \<and> (\<forall>t \<in> set (fst (generateMountsModeRun w)).
         target t = baseDir \<or> target t = kernelDir \<longrightarrow> IsMounted w dataDir = Inr True)
   \<and> (IsMounted w seedDir = Inr True \<and> IsMounted w bootDir = Inr True
      \<and> IsMounted w dataDir = Inr True
      \<and> ReadModeenv w systemDataDir = Inr m \<longrightarrow>
        (IsMounted w baseDir = Inr False \<and> IsMounted w kernelDir = Inr False \<longrightarrow>
           fst (generateMountsModeRun w) =
             [tuple (filepath_Join [dataDir, ''system-data'', SnapBlobDir w, Base m]) baseDir,
              tuple (filepath_Join [dataDir, ''system-data'', SnapBlobDir w, Kernel m]) kernelDir]
           \<and> fst (snd (generateMountsModeRun w)) = None)
        \<and> (IsMounted w baseDir = Inr True \<and> IsMounted w kernelDir = Inr True \<longrightarrow>
           fst (generateMountsModeRun w) = [] \<and> fst (snd (generateMountsModeRun w)) = None))"
proof (intro conjI)
  show "IsMounted w seedDir = Inr False \<and> IsMounted w bootDir = Inr False
      \<and> IsMounted w dataDir = Inr False \<longrightarrow>
        fst (generateMountsModeRun w) =
          [tuple ''/dev/disk/by-label/ubuntu-seed'' seedDir,
           tuple ''/dev/disk/by-label/ubuntu-boot'' bootDir,
           tuple ''/dev/disk/by-label/ubuntu-data'' dataDir]
        \<and> fst (snd (generateMountsModeRun w)) = None"
    by (simp add: run_eval)
next
  show "\<forall>t \<in> set (fst (generateMountsModeRun w)).
         target t = baseDir \<or> target t = kernelDir \<longrightarrow> IsMounted w dataDir = Inr True"
    by (simp add: run_eval split: sum.split prod.split option.split)
next
  show "IsMounted w seedDir = Inr True \<and> IsMounted w bootDir = Inr True
      \<and> IsMounted w dataDir = Inr True
      \<and> ReadModeenv w systemDataDir = Inr m \<longrightarrow>
        (IsMounted w baseDir = Inr False \<and> IsMounted w kernelDir = Inr False \<longrightarrow>
           fst (generateMountsModeRun w) =
             [tuple (filepath_Join [dataDir, ''system-data'', SnapBlobDir w, Base m]) baseDir,
              tuple (filepath_Join [dataDir, ''system-data'', SnapBlobDir w, Kernel m]) kernelDir]
           \<and> fst (snd (generateMountsModeRun w)) = None)
        \<and> (IsMounted w baseDir = Inr True \<and> IsMounted w kernelDir = Inr True \<longrightarrow>
           fst (generateMountsModeRun w) = [] \<and> fst (snd (generateMountsModeRun w)) = None)"
    by (simp add: run_eval)
qed

theorem run_steps_witness:
  "fst (generateMountsModeRun (exampleWorld runCmdline [] (Inr exampleModeenv))) =
     [tuple ''/dev/disk/by-label/ubuntu-seed'' ''/run/mnt/ubuntu-seed'',
      tuple ''/dev/disk/by-label/ubuntu-boot'' ''/run/mnt/ubuntu-boot'',
      tuple ''/dev/disk/by-label/ubuntu-data'' ''/run/mnt/ubuntu-data'']
   \<and> fst (generateMountsModeRun (exampleWorld runCmdline basicMounted (Inr exampleModeenv))) =
     [tuple ''/run/mnt/ubuntu-data/system-data/var/lib/snapd/snaps/core20_5.snap'' ''/run/mnt/base'',
      tuple ''/run/mnt/ubuntu-data/system-data/var/lib/snapd/snaps/pc-kernel_10.snap''
        ''/run/mnt/kernel'']
   \<and> fst (generateMountsModeRun (exampleWorld runCmdline allMounted (Inr exampleModeenv))) = []"
proof -
  have first: "fst (generateMountsModeRun (exampleWorld runCmdline [] (Inr exampleModeenv))) =
      [tuple ''/dev/disk/by-label/ubuntu-seed'' seedDir,
       tuple ''/dev/disk/by-label/ubuntu-boot'' bootDir,
       tuple ''/dev/disk/by-label/ubuntu-data'' dataDir]"
    using run_steps [of "exampleWorld runCmdline [] (Inr exampleModeenv)"] by simp
  have second: "fst (generateMountsModeRun (exampleWorld runCmdline basicMounted (Inr exampleModeenv))) =
      [tuple ''/run/mnt/ubuntu-data/system-data/var/lib/snapd/snaps/core20_5.snap'' baseDir,
       tuple ''/run/mnt/ubuntu-data/system-data/var/lib/snapd/snaps/pc-kernel_10.snap'' kernelDir]"
    using run_steps [of "exampleWorld runCmdline basicMounted (Inr exampleModeenv)" exampleModeenv]
    by (simp add: example_blob_paths)
  have third: "fst (generateMountsModeRun (exampleWorld runCmdline allMounted (Inr exampleModeenv))) = []"
    using run_steps [of "exampleWorld runCmdline allMounted (Inr exampleModeenv)" exampleModeenv]
    by simp
  show ?thesis
    using first second third by (simp add: dir_defs)
qed

text \<open>
  C1 as the specification states it does not hold: with nothing mounted, and so with seed
  and boot not mounted, the first invocation already writes the data partition's tuple.
\<close>

theorem run_first_call_counterexample:
  "IsMounted (exampleWorld runCmdline [] (Inr exampleModeenv)) seedDir = Inr False
   \<and> IsMounted (exampleWorld runCmdline [] (Inr exampleModeenv)) bootDir = Inr False
   \<and> fst (generateMountsModeRun (exampleWorld runCmdline [] (Inr exampleModeenv))) =
       [tuple ''/dev/disk/by-label/ubuntu-seed'' ''/run/mnt/ubuntu-seed'',
        tuple ''/dev/disk/by-label/ubuntu-boot'' ''/run/mnt/ubuntu-boot'',
        tuple ''/dev/disk/by-label/ubuntu-data'' ''/run/mnt/ubuntu-data'']"
proof -
  have "fst (generateMountsModeRun (exampleWorld runCmdline [] (Inr exampleModeenv))) =
          [tuple ''/dev/disk/by-label/ubuntu-seed'' seedDir,
           tuple ''/dev/disk/by-label/ubuntu-boot'' bootDir,
           tuple ''/dev/disk/by-label/ubuntu-data'' dataDir]"
    by (simp add: run_eval)
  then show ?thesis by (simp add: dir_defs)
qed

text \<open>
  C7. In run mode, a tuple written for the base (the kernel) mount point has as its
  source the data partition's \<^verbatim>\<open>system-data\<close> directory joined with
  \<^verbatim>\<open>dirs.SnapBlobDir\<close> and the \<open>Base\<close> (the \<open>Kernel\<close>) of the modeenv that was read;
  such a tuple is written whenever the generator gets as far as the probe that answers
  not mounted; and the output is the same whatever the seed and snap readers of the
  world would answer.
\<close>

theorem run_base_kernel_from_modeenv:
  "(\<forall>t \<in> set (fst (generateMountsModeRun w)).
      (target t = filepath_Join [runMnt, ''base''] \<longrightarrow>
         (\<exists>m. ReadModeenv w (filepath_Join [filepath_Join [runMnt, ''ubuntu-data''], ''system-data'']) = Inr m
            \<and> source t = filepath_Join [filepath_Join [runMnt, ''ubuntu-data''], ''system-data'',
                                        SnapBlobDir w, Base m]))
    \<and> (target t = filepath_Join [runMnt, ''kernel''] \<longrightarrow>
         (\<exists>m. ReadModeenv w (filepath_Join [filepath_Join [runMnt, ''ubuntu-data''], ''system-data'']) = Inr m
            \<and> source t = filepath_Join [filepath_Join [runMnt, ''ubuntu-data''], ''system-data'',
                                        SnapBlobDir w, Kernel m])))
   \<and> ((\<exists>ms mb. IsMounted w seedDir = Inr ms \<and> IsMounted w bootDir = Inr mb)
        \<and> IsMounted w dataDir = Inr True
        \<and> ReadModeenv w systemDataDir = Inr m
        \<and> IsMounted w baseDir = Inr isBaseMounted
      \<longrightarrow>
        (\<not> isBaseMounted \<longrightarrow>
           tuple (filepath_Join [filepath_Join [runMnt, ''ubuntu-data''], ''system-data'',
                                 SnapBlobDir w, Base m]) baseDir
             \<in> set (fst (generateMountsModeRun w)))
        \<and> (IsMounted w kernelDir = Inr False \<longrightarrow>
           tuple (filepath_Join [filepath_Join [runMnt, ''ubuntu-data''], ''system-data'',
                                 SnapBlobDir w, Kernel m]) kernelDir
             \<in> set (fst (generateMountsModeRun w))))
   \<and> (\<forall>so sn ri.
         fst (generateMountsModeRun (w\<lparr>seed_Open := so, snap_Open := sn, ReadInfoFromSnapFile := ri\<rparr>)) =
           fst (generateMountsModeRun w)
         \<and> fst (snd (generateMountsModeRun (w\<lparr>seed_Open := so, snap_Open := sn, ReadInfoFromSnapFile := ri\<rparr>))) =
           fst (snd (generateMountsModeRun w)))"
proof (intro conjI)
  show "\<forall>t \<in> set (fst (generateMountsModeRun w)).
      (target t = filepath_Join [runMnt, ''base''] \<longrightarrow>
         (\<exists>m. ReadModeenv w (filepath_Join [filepath_Join [runMnt, ''ubuntu-data''], ''system-data'']) = Inr m
            \<and> source t = filepath_Join [filepath_Join [runMnt, ''ubuntu-data''], ''system-data'',
                                        SnapBlobDir w, Base m]))
    \<and> (target t = filepath_Join [runMnt, ''kernel''] \<longrightarrow>
         (\<exists>m. ReadModeenv w (filepath_Join [filepath_Join [runMnt, ''ubuntu-data''], ''system-data'']) = Inr m
            \<and> source t = filepath_Join [filepath_Join [runMnt, ''ubuntu-data''], ''system-data'',
                                        SnapBlobDir w, Kernel m]))"
    unfolding path_eqs
    by (simp add: run_eval split: sum.split prod.split option.split)
next
  show "(\<exists>ms mb. IsMounted w seedDir = Inr ms \<and> IsMounted w bootDir = Inr mb)
        \<and> IsMounted w dataDir = Inr True
        \<and> ReadModeenv w systemDataDir = Inr m
        \<and> IsMounted w baseDir = Inr isBaseMounted
      \<longrightarrow>
        (\<not> isBaseMounted \<longrightarrow>
           tuple (filepath_Join [filepath_Join [runMnt, ''ubuntu-data''], ''system-data'',
                                 SnapBlobDir w, Base m]) baseDir
             \<in> set (fst (generateMountsModeRun w)))
        \<and> (IsMounted w kernelDir = Inr False \<longrightarrow>
           tuple (filepath_Join [filepath_Join [runMnt, ''ubuntu-data''], ''system-data'',
                                 SnapBlobDir w, Kernel m]) kernelDir
             \<in> set (fst (generateMountsModeRun w)))"
    unfolding path_eqs
    by (auto simp: run_eval split: sum.split prod.split option.split)
next
  show "\<forall>so sn ri.
         fst (generateMountsModeRun (w\<lparr>seed_Open := so, snap_Open := sn, ReadInfoFromSnapFile := ri\<rparr>)) =
           fst (generateMountsModeRun w)
         \<and> fst (snd (generateMountsModeRun (w\<lparr>seed_Open := so, snap_Open := sn, ReadInfoFromSnapFile := ri\<rparr>))) =
           fst (snd (generateMountsModeRun w))"
    by (simp add: run_eval ReadModeenv_def split: sum.split prod.split option.split)
qed

theorem run_base_kernel_from_modeenv_witness:
  "tuple ''/run/mnt/ubuntu-data/system-data/var/lib/snapd/snaps/core20_5.snap'' ''/run/mnt/base''
     \<in> set (fst (generateMountsModeRun (exampleWorld runCmdline basicMounted (Inr exampleModeenv))))
   \<and> tuple ''/run/mnt/ubuntu-data/system-data/var/lib/snapd/snaps/pc-kernel_10.snap''
        ''/run/mnt/kernel''
     \<in> set (fst (generateMountsModeRun (exampleWorld runCmdline basicMounted (Inr exampleModeenv))))"
proof -
  let ?V = "exampleWorld runCmdline basicMounted (Inr exampleModeenv)"
  have "tuple (filepath_Join [dataDir, ''system-data'', SnapBlobDir ?V, Base exampleModeenv]) baseDir
          \<in> set (fst (generateMountsModeRun ?V))
        \<and> tuple (filepath_Join [dataDir, ''system-data'', SnapBlobDir ?V, Kernel exampleModeenv]) kernelDir
          \<in> set (fst (generateMountsModeRun ?V))"
  proof -
    have ex: "\<exists>ms mb. IsMounted ?V seedDir = Inr ms \<and> IsMounted ?V bootDir = Inr mb"
      by auto
    have hyps: "IsMounted ?V dataDir = Inr True" "ReadModeenv ?V systemDataDir = Inr exampleModeenv"
      "IsMounted ?V baseDir = Inr False" "IsMounted ?V kernelDir = Inr False"
      by simp_all
    show ?thesis
      using run_base_kernel_from_modeenv [of ?V exampleModeenv False] ex hyps
      unfolding dataDir_eq by blast
  qed
  then show ?thesis
    unfolding example_blob_paths by (simp add: dir_defs)
qed

text \<open>
  C10. In run mode, when the data partition is mounted, the modeenv is read before the
  base and kernel mount points are probed. With an unreadable modeenv every such
  invocation fails, with the read's error once the seed and boot probes have answered,
  and whatever the probe would answer for base and kernel; and an invocation that ends
  with empty output and no error has read a modeenv.
\<close>

theorem run_modeenv_unreadable:
  "(IsMounted w dataDir = Inr True \<and> ReadModeenv w systemDataDir = Inl e \<longrightarrow>
      fst (snd (generateMountsModeRun w)) \<noteq> None
      \<and> ((\<exists>ms mb. IsMounted w seedDir = Inr ms \<and> IsMounted w bootDir = Inr mb) \<longrightarrow>
           fst (snd (generateMountsModeRun w)) = Some e)
      \<and> (\<forall>x y. fst (generateMountsModeRun
                     (w\<lparr>IsMounted := (IsMounted w)(baseDir := x, kernelDir := y)\<rparr>)) =
                 fst (generateMountsModeRun w)
               \<and> fst (snd (generateMountsModeRun
                     (w\<lparr>IsMounted := (IsMounted w)(baseDir := x, kernelDir := y)\<rparr>))) =
                 fst (snd (generateMountsModeRun w))))
   \<and> (fst (generateMountsModeRun w) = [] \<and> fst (snd (generateMountsModeRun w)) = None \<longrightarrow>
        (\<exists>m. ReadModeenv w systemDataDir = Inr m))"
proof (intro conjI impI)
  assume h: "IsMounted w dataDir = Inr True \<and> ReadModeenv w systemDataDir = Inl e"
  then show "fst (snd (generateMountsModeRun w)) \<noteq> None"
    by (simp add: run_eval split: sum.split)
  from h show "\<exists>ms mb. IsMounted w seedDir = Inr ms \<and> IsMounted w bootDir = Inr mb \<Longrightarrow>
      fst (snd (generateMountsModeRun w)) = Some e"
    by (auto simp: run_eval)
  from h show "\<forall>x y. fst (generateMountsModeRun
                     (w\<lparr>IsMounted := (IsMounted w)(baseDir := x, kernelDir := y)\<rparr>)) =
                 fst (generateMountsModeRun w)
               \<and> fst (snd (generateMountsModeRun
                     (w\<lparr>IsMounted := (IsMounted w)(baseDir := x, kernelDir := y)\<rparr>))) =
                 fst (snd (generateMountsModeRun w))"
    by (simp add: run_eval ReadModeenv_def split: sum.split)
next
  assume "fst (generateMountsModeRun w) = [] \<and> fst (snd (generateMountsModeRun w)) = None"
  then show "\<exists>m. ReadModeenv w systemDataDir = Inr m"
    by (simp add: run_eval split: sum.splits if_splits)
qed

theorem run_modeenv_unreadable_witness:
  "IsMounted (exampleWorld runCmdline allMounted noModeenv) dataDir = Inr True
   \<and> IsMounted (exampleWorld runCmdline allMounted noModeenv) baseDir = Inr True
   \<and> IsMounted (exampleWorld runCmdline allMounted noModeenv) kernelDir = Inr True
   \<and> fst (snd (generateMountsModeRun (exampleWorld runCmdline allMounted noModeenv))) =
       Some (ErrExternal ''no modeenv'')
   \<and> fst (generateMountsModeRun (exampleWorld runCmdline allMounted (Inr exampleModeenv))) = []
   \<and> fst (snd (generateMountsModeRun (exampleWorld runCmdline allMounted (Inr exampleModeenv)))) = None
   \<and> (\<exists>m. ReadModeenv (exampleWorld runCmdline allMounted (Inr exampleModeenv)) systemDataDir = Inr m)"
proof -
  let ?W = "exampleWorld runCmdline allMounted noModeenv"
  let ?V = "exampleWorld runCmdline allMounted (Inr exampleModeenv)"
  have failed: "fst (snd (generateMountsModeRun ?W)) = Some (ErrExternal ''no modeenv'')"
  proof -
    have ex: "\<exists>ms mb. IsMounted ?W seedDir = Inr ms \<and> IsMounted ?W bootDir = Inr mb"
      by auto
    have hyps: "IsMounted ?W dataDir = Inr True"
      "ReadModeenv ?W systemDataDir = Inl (ErrExternal ''no modeenv'')"
      by (simp_all add: noModeenv_def)
    show ?thesis
      using run_modeenv_unreadable [of ?W "ErrExternal ''no modeenv''"] ex hyps by blast
  qed
  have conv: "fst (generateMountsModeRun ?V) = [] \<and> fst (snd (generateMountsModeRun ?V)) = None"
    by (simp add: run_eval)
  have "\<exists>m. ReadModeenv ?V systemDataDir = Inr m"
    using run_modeenv_unreadable [of ?V] conv by blast
  with failed conv show ?thesis by simp
qed

subsection \<open>Classification of the command line\<close>

lemmas scan_eval = scanWords.simps skipSpaces.simps tokenTooLong_def MaxScanTokenSize_def isAsciiSpace_def

lemmas loop_eval = HasPrefix_def SplitN_eq_2_def index_def ListContains_def validModes_def

lemma scanWords_err: "snd (scanWords s) = None \<or> snd (scanWords s) = Some ErrTooLong"
proof (induction s rule: scanWords.induct)
  case (1 data)
  show ?case
  proof (cases "skipSpaces data = [] \<or>
                tokenTooLong (fst (splitWord (skipSpaces data))) (snd (splitWord (skipSpaces data)))")
    case True
    then show ?thesis using scanWords.simps [of data] by (auto simp: Let_def)
  next
    case False
    then have "snd (scanWords data) =
        snd (scanWords (drop (spaceWidth (snd (splitWord (skipSpaces data))))
                             (snd (splitWord (skipSpaces data)))))"
      using scanWords.simps [of data] by (simp add: Let_def split: prod.splits)
    with 1 False show ?thesis by auto
  qed
qed

lemma spaceWidth_le_length: "spaceWidth s \<le> length s"
  by (cases s) (auto split: list.splits)

lemma length_fst_splitWord: "length (fst (splitWord s)) + length (snd (splitWord s)) = length s"
  using splitWord_concat [of s] by (metis length_append)

text \<open>
  A command line shorter than \<^verbatim>\<open>MaxScanTokenSize\<close> never makes the scanner fail.
\<close>

lemma scanWords_short:
  "length cmdline < MaxScanTokenSize \<Longrightarrow> snd (scanWords cmdline) = None"
proof (induction cmdline rule: scanWords.induct)
  case (1 data)
  let ?d = "skipSpaces data"
  let ?tok = "fst (splitWord ?d)"
  let ?rest = "snd (splitWord ?d)"
  show ?case
  proof (cases "?d = []")
    case True
    then show ?thesis using scanWords.simps [of data] by (simp add: Let_def)
  next
    case False
    have len: "length ?tok + length ?rest \<le> length data"
      using length_fst_splitWord [of ?d] length_skipSpaces [of data] by simp
    have notlong: "\<not> tokenTooLong ?tok ?rest"
      using len "1.prems" spaceWidth_le_length [of ?rest]
      by (auto simp: tokenTooLong_def)
    have "length (drop (spaceWidth ?rest) ?rest) < MaxScanTokenSize"
      using len "1.prems" by simp
    then have "snd (scanWords (drop (spaceWidth ?rest) ?rest)) = None"
      using "1.IH" [OF refl False refl refl notlong] by simp
    then show ?thesis
      using False notlong scanWords.simps [of data] by (simp add: Let_def split: prod.splits)
  qed
qed

text \<open>
  C6, amended to what the code does. When
  \<^verbatim>\<open>snapd_recovery_mode=run\<close> is the first token with the prefix
  \<^verbatim>\<open>snapd_recovery_mode=\<close> that the scanner delivers, the result is
  mode \<^verbatim>\<open>run\<close> with an empty label and no error, whether or not a
  \<^verbatim>\<open>snapd_recovery_system=\<close> token came before, and whatever
  follows the token: the tokens after it and the scanner's error state are not looked at.
\<close>

theorem run_token_first:
  assumes "scanWords cmdline = (pre @ ''snapd_recovery_mode=run'' # post, scanErr)"
      and "\<forall>t \<in> set pre. \<not> HasPrefix t ''snapd_recovery_mode=''"
  shows "whichModeAndRecoverSystem cmdline = Inr (''run'', '''')
         \<and> (\<forall>post' scanErr'.
               scanLoop (pre @ ''snapd_recovery_mode=run'' # post') '''' '''' scanErr' =
                 Inr (''run'', ''''))"
proof -
  have loop: "scanLoop (pre @ ''snapd_recovery_mode=run'' # p) '''' '''' e = Inr (''run'', '''')"
    for p e
  proof -
    obtain sl where "scanLoop (pre @ ''snapd_recovery_mode=run'' # p) '''' '''' e =
                     scanLoop (''snapd_recovery_mode=run'' # p) '''' sl e"
      using scanLoop_skip_prefix [OF assms(2)] by blast
    then show ?thesis by (simp only: scanLoop_run_token)
  qed
  then show ?thesis
    using assms(1) by (simp add: whichModeAndRecoverSystem_def)
qed

theorem run_token_first_witness:
  "whichModeAndRecoverSystem
     ''quiet snapd_recovery_system=20231001 snapd_recovery_mode=run snapd_recovery_mode=bogus'' =
   Inr (''run'', '''')"
proof -
  have sw: "scanWords
      ''quiet snapd_recovery_system=20231001 snapd_recovery_mode=run snapd_recovery_mode=bogus'' =
    ([''quiet'', ''snapd_recovery_system=20231001''] @
       ''snapd_recovery_mode=run'' # [''snapd_recovery_mode=bogus''], None)"
    by (simp add: scan_eval)
  have pre: "\<forall>t \<in> set [''quiet'', ''snapd_recovery_system=20231001''].
               \<not> HasPrefix t ''snapd_recovery_mode=''"
    by (simp add: HasPrefix_def)
  show ?thesis
    using run_token_first [OF sw pre] by simp
qed

text \<open>
  C6 as the specification states it does not hold: a command line that contains the run
  token after an install token and a label is classified as install.
\<close>

theorem run_token_later_counterexample:
  "''snapd_recovery_mode=run'' \<in> set (fst (scanWords
       ''snapd_recovery_mode=install snapd_recovery_system=20231001 snapd_recovery_mode=run''))
   \<and> whichModeAndRecoverSystem
       ''snapd_recovery_mode=install snapd_recovery_system=20231001 snapd_recovery_mode=run'' =
     Inr (''install'', ''20231001'')"
proof -
  have sw: "scanWords
      ''snapd_recovery_mode=install snapd_recovery_system=20231001 snapd_recovery_mode=run'' =
    ([''snapd_recovery_mode=install'', ''snapd_recovery_system=20231001'',
      ''snapd_recovery_mode=run''], None)"
    by (simp add: scan_eval)
  show ?thesis
    by (simp add: whichModeAndRecoverSystem_def sw loop_eval)
qed

text \<open>
  C9, amended to what the code does. When the first token with the prefix
  \<^verbatim>\<open>snapd_recovery_mode=\<close> that the scanner delivers carries a value that is not
  empty and not one of \<^verbatim>\<open>install\<close>, \<^verbatim>\<open>recover\<close>, \<^verbatim>\<open>run\<close>, classification fails
  with the unknown-mode error for that value, the entry point writes no mount tuple and
  returns that error, and a command line without any mode token never gives this error:
  it gives the cannot-detect error (or the scanner's).
\<close>

theorem unknown_mode_first:
  assumes "scanWords cmdline = (pre @ (''snapd_recovery_mode='' @ v) # post, scanErr)"
      and "\<forall>t \<in> set pre. \<not> HasPrefix t ''snapd_recovery_mode=''"
      and "v \<noteq> ''''"
      and "\<not> ListContains validModes v"
  shows "whichModeAndRecoverSystem cmdline = Inl (ErrUnknownMode v)
         \<and> (ReadFile w procCmdline = Inr cmdline \<longrightarrow>
              generateInitramfsMounts w = ([], Some (ErrUnknownMode v), w))
         \<and> (\<forall>other. (\<forall>t \<in> set (fst (scanWords other)). \<not> HasPrefix t ''snapd_recovery_mode='') \<longrightarrow>
              whichModeAndRecoverSystem other \<noteq> Inl (ErrUnknownMode v)
              \<and> (snd (scanWords other) = None \<longrightarrow>
                   whichModeAndRecoverSystem other = Inl ErrCannotDetect))"
proof -
  obtain sl where "scanLoop (pre @ (''snapd_recovery_mode='' @ v) # post) '''' '''' scanErr =
                   scanLoop ((''snapd_recovery_mode='' @ v) # post) '''' sl scanErr"
    using scanLoop_skip_prefix [OF assms(2)] by blast
  then have "scanLoop (pre @ (''snapd_recovery_mode='' @ v) # post) '''' '''' scanErr =
             Inl (ErrUnknownMode v)"
    using scanLoop_unknown_token [OF assms(3,4)] by simp
  then have which: "whichModeAndRecoverSystem cmdline = Inl (ErrUnknownMode v)"
    using assms(1) by (simp add: whichModeAndRecoverSystem_def)
  then have entry: "ReadFile w procCmdline = Inr cmdline \<longrightarrow>
      generateInitramfsMounts w = ([], Some (ErrUnknownMode v), w)"
    by (simp add: generateInitramfsMounts_def)
  have absent: "whichModeAndRecoverSystem other \<noteq> Inl (ErrUnknownMode v)
        \<and> (snd (scanWords other) = None \<longrightarrow> whichModeAndRecoverSystem other = Inl ErrCannotDetect)"
    if "\<forall>t \<in> set (fst (scanWords other)). \<not> HasPrefix t ''snapd_recovery_mode=''" for other
  proof -
    obtain toks err where sw: "scanWords other = (toks, err)"
      by (cases "scanWords other")
    with that have "\<forall>t \<in> set toks. \<not> HasPrefix t ''snapd_recovery_mode=''"
      by simp
    then have "scanLoop toks '''' '''' err =
                 Inl (case err of None \<Rightarrow> ErrCannotDetect | Some e \<Rightarrow> e)"
      by (rule scanLoop_no_mode)
    with sw have "whichModeAndRecoverSystem other =
            Inl (case snd (scanWords other) of None \<Rightarrow> ErrCannotDetect | Some e \<Rightarrow> e)"
      by (simp add: whichModeAndRecoverSystem_def)
    then show ?thesis
      using scanWords_err [of other] by auto
  qed
  from which entry absent show ?thesis by blast
qed

theorem unknown_mode_first_witness:
  "whichModeAndRecoverSystem ''quiet snapd_recovery_mode=bogus snapd_recovery_mode=run'' =
     Inl (ErrUnknownMode ''bogus'')
   \<and> generateInitramfsMounts
       (exampleWorld ''quiet snapd_recovery_mode=bogus snapd_recovery_mode=run'' [] noModeenv) =
     ([], Some (ErrUnknownMode ''bogus''),
      exampleWorld ''quiet snapd_recovery_mode=bogus snapd_recovery_mode=run'' [] noModeenv)
   \<and> whichModeAndRecoverSystem ''quiet splash'' = Inl ErrCannotDetect"
proof -
  let ?c = "''quiet snapd_recovery_mode=bogus snapd_recovery_mode=run''"
  have sw: "scanWords ?c =
    ([''quiet''] @ (''snapd_recovery_mode='' @ ''bogus'') # [''snapd_recovery_mode=run''], None)"
    by (simp add: scan_eval)
  have pre: "\<forall>t \<in> set [''quiet'']. \<not> HasPrefix t ''snapd_recovery_mode=''"
    by (simp add: HasPrefix_def)
  have v: "''bogus'' \<noteq> ''''" "\<not> ListContains validModes ''bogus''"
    by (simp_all add: ListContains_def validModes_def)
  have rd: "ReadFile (exampleWorld ?c [] noModeenv) procCmdline = Inr ?c"
    by (simp add: exampleWorld_def procCmdline_def)
  have other: "scanWords ''quiet splash'' = ([''quiet'', ''splash''], None)"
    by (simp add: scan_eval)
  have absent: "\<forall>t \<in> set (fst (scanWords ''quiet splash'')). \<not> HasPrefix t ''snapd_recovery_mode=''"
    by (simp add: other HasPrefix_def)
  have noerr: "snd (scanWords ''quiet splash'') = None"
    by (simp add: other)
  note main = unknown_mode_first [OF sw pre v, of "exampleWorld ?c [] noModeenv"]
  have "whichModeAndRecoverSystem ?c = Inl (ErrUnknownMode ''bogus'')"
    using main by simp
  moreover have "generateInitramfsMounts (exampleWorld ?c [] noModeenv) =
      ([], Some (ErrUnknownMode ''bogus''), exampleWorld ?c [] noModeenv)"
    using main rd by simp
  moreover have "whichModeAndRecoverSystem ''quiet splash'' = Inl ErrCannotDetect"
    using main absent noerr by blast
  ultimately show ?thesis by simp
qed

text \<open>
  C9 as the specification states it does not hold: an unknown mode after the run token is
  never looked at.
\<close>

theorem unknown_mode_later_counterexample:
  "''snapd_recovery_mode=bogus'' \<in> set (fst (scanWords
       ''snapd_recovery_mode=run snapd_recovery_mode=bogus''))
   \<and> whichModeAndRecoverSystem ''snapd_recovery_mode=run snapd_recovery_mode=bogus'' =
     Inr (''run'', '''')"
proof -
  have sw: "scanWords ''snapd_recovery_mode=run snapd_recovery_mode=bogus'' =
    ([''snapd_recovery_mode=run'', ''snapd_recovery_mode=bogus''], None)"
    by (simp add: scan_eval)
  show ?thesis
    by (simp add: whichModeAndRecoverSystem_def sw loop_eval)
qed

lemma scanLoop_labelless_step:
  assumes "\<not> HasPrefix t ''snapd_recovery_system=''"
      and "HasPrefix t ''snapd_recovery_mode='' \<longrightarrow>
               t \<in> {''snapd_recovery_mode=install'', ''snapd_recovery_mode=recover'', ''snapd_recovery_mode=''}"
  shows "\<exists>mode'. scanLoop (t # ts) mode '''' err = scanLoop ts mode' '''' err"
proof (cases "HasPrefix t ''snapd_recovery_mode=''")
  case True
  with assms(2) have "t \<in> {''snapd_recovery_mode=install'', ''snapd_recovery_mode=recover'', ''snapd_recovery_mode=''}" by simp
  then consider "t = ''snapd_recovery_mode=install''" | "t = ''snapd_recovery_mode=recover''"
    | "t = ''snapd_recovery_mode=''"
    by auto
  then show ?thesis
  proof cases
    case 1
    then show ?thesis by (auto simp: loop_eval)
  next
    case 2
    then show ?thesis by (auto simp: loop_eval)
  next
    case 3
    then show ?thesis by (auto simp: loop_eval)
  qed
next
  case False
  with assms(1) show ?thesis by auto
qed

lemma scanLoop_labelless:
  assumes "\<forall>t \<in> set toks. \<not> HasPrefix t ''snapd_recovery_system=''"
      and "\<forall>t \<in> set toks. HasPrefix t ''snapd_recovery_mode='' \<longrightarrow>
               t \<in> {''snapd_recovery_mode=install'', ''snapd_recovery_mode=recover'', ''snapd_recovery_mode=''}"
  shows "scanLoop toks mode '''' err = Inl (case err of None \<Rightarrow> ErrCannotDetect | Some e \<Rightarrow> e)"
  using assms
proof (induction toks arbitrary: mode)
  case Nil
  then show ?case by (simp split: option.splits)
next
  case (Cons t toks)
  then obtain mode' where "scanLoop (t # toks) mode '''' err = scanLoop toks mode' '''' err"
    using scanLoop_labelless_step [where t = t and mode = mode and ts = toks and err = err] by auto
  with Cons show ?case by simp
qed

lemma scanLoop_result:
  assumes "scanLoop toks mode sl err = Inr (m, l)"
      and "mode = '''' \<or> mode = ''install'' \<or> mode = ''recover''"
  shows "(m = ''run'' \<and> l = '''') \<or> ((m = ''install'' \<or> m = ''recover'') \<and> l \<noteq> '''')"
  using assms
proof (induction toks arbitrary: mode sl)
  case Nil
  then show ?case by (simp split: option.splits)
next
  case (Cons t toks)
  show ?case
  proof (cases "HasPrefix t ''snapd_recovery_mode=''")
    case True
    then have nosys: "\<not> HasPrefix t ''snapd_recovery_system=''"
      by (rule not_both_prefixes)
    show ?thesis
    proof (cases "index (SplitN_eq_2 t) 1")
      case (Inl e)
      with Cons.prems True show ?thesis by simp
    next
      case (Inr mv)
      define mode1 where "mode1 = (if mv = '''' then ''install'' else mv)"
      show ?thesis
      proof (cases "mode1 = ''install'' \<or> mode1 = ''recover''")
        case True
        then have step: "scanLoop (t # toks) mode sl err =
            (if sl \<noteq> '''' then Inr (mode1, sl) else scanLoop toks mode1 sl err)"
          using \<open>HasPrefix t ''snapd_recovery_mode=''\<close> nosys Inr
          by (auto simp: mode1_def ListContains_def validModes_def Let_def)
        show ?thesis
        proof (cases "sl \<noteq> ''''")
          case True
          with step Cons.prems \<open>mode1 = ''install'' \<or> mode1 = ''recover''\<close> show ?thesis by auto
        next
          case False
          with step Cons.prems have "scanLoop toks mode1 sl err = Inr (m, l)" by simp
          then show ?thesis
            using Cons.IH [of mode1 sl] \<open>mode1 = ''install'' \<or> mode1 = ''recover''\<close> by blast
        qed
      next
        case False
        then have "scanLoop (t # toks) mode sl err = Inr (''run'', '''') \<or>
                   scanLoop (t # toks) mode sl err = Inl (ErrUnknownMode mode1)"
          using \<open>HasPrefix t ''snapd_recovery_mode=''\<close> Inr
          by (auto simp: mode1_def ListContains_def validModes_def Let_def)
        with Cons.prems show ?thesis by auto
      qed
    qed
  next
    case False
    show ?thesis
    proof (cases "if HasPrefix t ''snapd_recovery_system='' then index (SplitN_eq_2 t) 1 else Inr sl")
      case (Inl e)
      with Cons.prems False show ?thesis by simp
    next
      case (Inr sl')
      with False have step: "scanLoop (t # toks) mode sl err =
          (if mode \<noteq> '''' \<and> sl' \<noteq> '''' then Inr (mode, sl') else scanLoop toks mode sl' err)"
        by simp
      show ?thesis
      proof (cases "mode \<noteq> '''' \<and> sl' \<noteq> ''''")
        case True
        with step Cons.prems show ?thesis by auto
      next
        case False
        with step Cons.prems have "scanLoop toks mode sl' err = Inr (m, l)" by simp
        then show ?thesis using Cons.IH [of mode sl'] Cons.prems(2) by blast
      qed
    qed
  qed
qed

text \<open>
  C2, amended to what the code does. When the scanner delivers no token with the prefix
  \<^verbatim>\<open>snapd_recovery_system=\<close> and every \<^verbatim>\<open>snapd_recovery_mode=\<close> token carries
  \<^verbatim>\<open>install\<close>, \<^verbatim>\<open>recover\<close> or the empty value, classification fails, with the
  cannot-detect error (or the scanner's error); and whenever classification succeeds,
  the result is \<^verbatim>\<open>run\<close> with an empty label, or \<^verbatim>\<open>install\<close> or \<^verbatim>\<open>recover\<close>
  with a label that is not empty.
\<close>

theorem mode_without_label:
  assumes "scanWords cmdline = (toks, scanErr)"
      and "\<forall>t \<in> set toks. \<not> HasPrefix t ''snapd_recovery_system=''"
      and "\<forall>t \<in> set toks. HasPrefix t ''snapd_recovery_mode='' \<longrightarrow>
               t \<in> {''snapd_recovery_mode=install'', ''snapd_recovery_mode=recover'', ''snapd_recovery_mode=''}"
  shows "whichModeAndRecoverSystem cmdline =
           Inl (case scanErr of None \<Rightarrow> ErrCannotDetect | Some e \<Rightarrow> e)
         \<and> (\<forall>other m l. whichModeAndRecoverSystem other = Inr (m, l) \<longrightarrow>
               (m = ''run'' \<and> l = '''') \<or> ((m = ''install'' \<or> m = ''recover'') \<and> l \<noteq> ''''))"
proof -
  have "whichModeAndRecoverSystem cmdline =
           Inl (case scanErr of None \<Rightarrow> ErrCannotDetect | Some e \<Rightarrow> e)"
    using assms(1) scanLoop_labelless [OF assms(2,3)]
    by (simp add: whichModeAndRecoverSystem_def)
  moreover have "(m = ''run'' \<and> l = '''') \<or> ((m = ''install'' \<or> m = ''recover'') \<and> l \<noteq> '''')"
    if "whichModeAndRecoverSystem other = Inr (m, l)" for other m l
    using that scanLoop_result [of "fst (scanWords other)" "''''" "''''" "snd (scanWords other)" m l]
    by (simp add: whichModeAndRecoverSystem_def split: prod.splits)
  ultimately show ?thesis by blast
qed

theorem mode_without_label_witness:
  "whichModeAndRecoverSystem ''quiet snapd_recovery_mode=recover'' = Inl ErrCannotDetect"
proof -
  have sw: "scanWords ''quiet snapd_recovery_mode=recover'' =
              ([''quiet'', ''snapd_recovery_mode=recover''], None)"
    by (simp add: scan_eval)
  have a: "\<forall>t \<in> set [''quiet'', ''snapd_recovery_mode=recover''].
             \<not> HasPrefix t ''snapd_recovery_system=''"
    by (simp add: HasPrefix_def)
  have b: "\<forall>t \<in> set [''quiet'', ''snapd_recovery_mode=recover''].
             HasPrefix t ''snapd_recovery_mode='' \<longrightarrow>
               t \<in> {''snapd_recovery_mode=install'', ''snapd_recovery_mode=recover'', ''snapd_recovery_mode=''}"
    by (simp add: HasPrefix_def)
  show ?thesis
    using mode_without_label [OF sw a b] by simp
qed

text \<open>
  C2 as the specification states it does not hold: a command line that holds the install
  token (or the mode token with the empty value) and no label is not classified.
\<close>

theorem install_without_label_counterexample:
  "whichModeAndRecoverSystem ''snapd_recovery_mode=install'' = Inl ErrCannotDetect
   \<and> whichModeAndRecoverSystem ''snapd_recovery_mode='' = Inl ErrCannotDetect"
proof -
  have sw: "scanWords ''snapd_recovery_mode=install'' = ([''snapd_recovery_mode=install''], None)"
    "scanWords ''snapd_recovery_mode='' = ([''snapd_recovery_mode=''], None)"
    by (simp_all add: scan_eval)
  show ?thesis
    by (simp add: whichModeAndRecoverSystem_def sw loop_eval)
qed

subsection \<open>No tuple for a mounted target\<close>

lemma install_unfold:
  "generateMountsModeInstall recoverySystem w =
     (case IsMounted w seedDir of
        Inl e \<Rightarrow> ([], Some e, w)
      | Inr isMounted \<Rightarrow>
          if \<not> isMounted then ([tuple ''/dev/disk/by-label/ubuntu-seed'' seedDir], None, w)
          else
            (case IsMounted w baseDir of
               Inl e \<Rightarrow> ([], Some e, w)
             | Inr isBaseMounted \<Rightarrow>
            (case IsMounted w kernelDir of
               Inl e \<Rightarrow> ([], Some e, w)
             | Inr isKernelMounted \<Rightarrow>
            (case IsMounted w snapdDir of
               Inl e \<Rightarrow> ([], Some e, w)
             | Inr isSnapdMounted \<Rightarrow>
            (case (if \<not> isBaseMounted \<or> \<not> isKernelMounted \<or> \<not> isSnapdMounted
                   then loadRecoverySystem w seedDir recoverySystem
                          isBaseMounted isKernelMounted isSnapdMounted
                   else ([], None)) of
               (out, Some e) \<Rightarrow> (out, Some e, w)
             | (out, None) \<Rightarrow>
            (case IsMounted w dataDir of
               Inl e \<Rightarrow> (out, Some e, w)
             | Inr isMounted \<Rightarrow>
                 if \<not> isMounted
                 then (out @ [\<lparr>options = [''--type=tmpfs''], source = ''tmpfs'',
                               target = dataDir\<rparr>], None, w)
                 else
                   (case Modeenv_Write
                           \<lparr>Mode = ''install'', RecoverySystem = recoverySystem,
                            Base = '''', Kernel = ''''\<rparr> systemDataDir w of
                      (err, w') \<Rightarrow> (out, err, w'))))))))"
  unfolding generateMountsModeInstall_def Let_def path_eqs ..

lemma essentialSnapMount_targets:
  "t \<in> set (essentialSnapMount b k s path ty) \<Longrightarrow>
     (target t = baseDir \<and> \<not> b) \<or> (target t = kernelDir \<and> \<not> k) \<or> (target t = snapdDir \<and> \<not> s)"
  unfolding essentialSnapMount_def path_eqs
  by (cases ty) (auto split: if_splits)

lemma essentialSnapsLoop_targets:
  "t \<in> set (fst (essentialSnapsLoop w b k s snaps)) \<Longrightarrow>
     (target t = baseDir \<and> \<not> b) \<or> (target t = kernelDir \<and> \<not> k) \<or> (target t = snapdDir \<and> \<not> s)"
proof (induction snaps)
  case Nil
  then show ?case by simp
next
  case (Cons a snaps)
  then show ?case
    using essentialSnapMount_targets [of t b k s]
    by (auto split: sum.splits prod.splits)
qed

lemma loadRecoverySystem_targets:
  "t \<in> set (fst (loadRecoverySystem w d rs b k s)) \<Longrightarrow>
     (target t = baseDir \<and> \<not> b) \<or> (target t = kernelDir \<and> \<not> k) \<or> (target t = snapdDir \<and> \<not> s)"
  using essentialSnapsLoop_targets [of t w b k s]
  by (auto simp: loadRecoverySystem_def split: sum.splits option.splits)

lemma install_targets:
  assumes "t \<in> set (fst (generateMountsModeInstall recoverySystem w))"
  shows "IsMounted w (target t) = Inr False"
proof (cases "IsMounted w seedDir")
  case (Inl e)
  with assms show ?thesis by (simp add: install_unfold)
next
  case seed: (Inr ms)
  show ?thesis
  proof (cases ms)
    case False
    with seed assms show ?thesis by (simp add: install_unfold)
  next
    case True
    show ?thesis
    proof (cases "IsMounted w baseDir")
      case (Inl e)
      with seed True assms show ?thesis by (simp add: install_unfold)
    next
      case base: (Inr b)
      show ?thesis
      proof (cases "IsMounted w kernelDir")
        case (Inl e)
        with seed True base assms show ?thesis by (simp add: install_unfold)
      next
        case kernel: (Inr k)
        show ?thesis
        proof (cases "IsMounted w snapdDir")
          case (Inl e)
          with seed True base kernel assms show ?thesis by (simp add: install_unfold)
        next
          case snapd: (Inr s)
          from seed True have seed': "IsMounted w seedDir = Inr True" by simp
          obtain lout lerr where load:
            "(if \<not> b \<or> \<not> k \<or> \<not> s
              then loadRecoverySystem w seedDir recoverySystem b k s
              else ([], None)) = (lout, lerr)"
            by (cases "if \<not> b \<or> \<not> k \<or> \<not> s
                       then loadRecoverySystem w seedDir recoverySystem b k s
                       else ([], None)")
          have load_targets: "IsMounted w (target u) = Inr False" if "u \<in> set lout" for u
          proof (cases "\<not> b \<or> \<not> k \<or> \<not> s")
            case True
            with that load
            have "u \<in> set (fst (loadRecoverySystem w seedDir recoverySystem b k s))"
              by simp
            from loadRecoverySystem_targets [OF this] base kernel snapd show ?thesis by auto
          next
            case False
            with that load show ?thesis by auto
          qed
          have gen: "generateMountsModeInstall recoverySystem w =
            (case (lout, lerr) of
               (out, Some e) \<Rightarrow> (out, Some e, w)
             | (out, None) \<Rightarrow>
            (case IsMounted w dataDir of
               Inl e \<Rightarrow> (out, Some e, w)
             | Inr isMounted \<Rightarrow>
                 if \<not> isMounted
                 then (out @ [\<lparr>options = [''--type=tmpfs''], source = ''tmpfs'',
                               target = dataDir\<rparr>], None, w)
                 else
                   (case Modeenv_Write
                           \<lparr>Mode = ''install'', RecoverySystem = recoverySystem,
                            Base = [], Kernel = []\<rparr> systemDataDir w of
                      (err, w') \<Rightarrow> (out, err, w'))))"
            by (simp only: install_unfold seed' base kernel snapd sum.case
                           not_True_eq_False if_False load)
          have "t \<in> set lout \<or>
                (t = \<lparr>options = [''--type=tmpfs''], source = ''tmpfs'', target = dataDir\<rparr>
                 \<and> IsMounted w dataDir = Inr False)"
            using assms unfolding gen
            by (auto split: prod.splits option.splits sum.splits if_splits)
          with load_targets show ?thesis by auto
        qed
      qed
    qed
  qed
qed

lemma run_targets:
  "\<forall>t \<in> set (fst (generateMountsModeRun w)). IsMounted w (target t) = Inr False"
  by (simp add: run_eval split: sum.split prod.split option.split)

text \<open>
  C4. No generator writes a mount tuple whose target the mount probe reports as
  mounted: every tuple written by the install generator, by the run generator and by the
  entry point has a target for which the probe answers not mounted.
\<close>

theorem no_mounted_target_emitted:
  "(\<forall>t \<in> set (fst (generateMountsModeInstall recoverySystem w)). IsMounted w (target t) = Inr False)
   \<and> (\<forall>t \<in> set (fst (generateMountsModeRun w)). IsMounted w (target t) = Inr False)
   \<and> (\<forall>t \<in> set (fst (generateInitramfsMounts w)). IsMounted w (target t) = Inr False)
   \<and> (\<forall>p. IsMounted w p = Inr True \<longrightarrow>
         (\<forall>t \<in> set (fst (generateMountsModeInstall recoverySystem w)). target t \<noteq> p)
         \<and> (\<forall>t \<in> set (fst (generateMountsModeRun w)). target t \<noteq> p)
         \<and> (\<forall>t \<in> set (fst (generateInitramfsMounts w)). target t \<noteq> p))"
proof -
  have i: "\<forall>t \<in> set (fst (generateMountsModeInstall rs w)). IsMounted w (target t) = Inr False" for rs
    using install_targets by blast
  have r: "\<forall>t \<in> set (fst (generateMountsModeRun w)). IsMounted w (target t) = Inr False"
    by (rule run_targets)
  have e: "\<forall>t \<in> set (fst (generateInitramfsMounts w)). IsMounted w (target t) = Inr False"
    using i r
    by (auto simp: generateInitramfsMounts_def generateMountsModeRecover_def
             split: sum.splits prod.splits)
  from i [of recoverySystem] r e show ?thesis by fastforce
qed

theorem no_mounted_target_emitted_witness:
  "IsMounted (exampleWorld installCmdline [seedDir, kernelDir] noModeenv) kernelDir = Inr True
   \<and> map target (fst (generateMountsModeInstall ''20231001''
         (exampleWorld installCmdline [seedDir, kernelDir] noModeenv))) =
       [snapdDir, baseDir, dataDir]
   \<and> kernelDir \<notin> set (map target (fst (generateMountsModeInstall ''20231001''
         (exampleWorld installCmdline [seedDir, kernelDir] noModeenv))))"
proof -
  let ?W = "exampleWorld installCmdline [seedDir, kernelDir] noModeenv"
  have mounted: "IsMounted ?W kernelDir = Inr True"
    by (simp add: exampleWorld_def)
  have out: "map target (fst (generateMountsModeInstall ''20231001'' ?W)) =
               [snapdDir, baseDir, dataDir]"
    by (simp add: install_unfold exampleWorld_def loadRecoverySystem_def exampleSeed_def
                  essentialSnapMount_def path_eqs)
  have "\<forall>t \<in> set (fst (generateMountsModeInstall ''20231001'' ?W)). target t \<noteq> kernelDir"
    using no_mounted_target_emitted [of "''20231001''" ?W] mounted by blast
  then have "kernelDir \<notin> set (map target (fst (generateMountsModeInstall ''20231001'' ?W)))"
    by auto
  with mounted out show ?thesis by simp
qed

subsection \<open>Invoking a generator twice\<close>

lemma essentialSnapsLoop_frame [simp]:
  "essentialSnapsLoop (w\<lparr>modeenvFile := F\<rparr>) b k s snaps = essentialSnapsLoop w b k s snaps"
  by (induction snaps) (simp_all split: sum.splits prod.splits)

lemma loadRecoverySystem_frame [simp]:
  "loadRecoverySystem (w\<lparr>modeenvFile := F\<rparr>) d rs b k s = loadRecoverySystem w d rs b k s"
  by (simp add: loadRecoverySystem_def split: sum.split option.split)

lemma install_frame:
  "fst (generateMountsModeInstall rs (w\<lparr>modeenvFile := F\<rparr>)) = fst (generateMountsModeInstall rs w)
   \<and> fst (snd (generateMountsModeInstall rs (w\<lparr>modeenvFile := F\<rparr>))) =
       fst (snd (generateMountsModeInstall rs w))"
  by (simp add: install_unfold Modeenv_Write_def split: sum.split prod.split option.split)

lemma install_post:
  "\<exists>F. snd (snd (generateMountsModeInstall rs w)) = w\<lparr>modeenvFile := F\<rparr>"
proof -
  have "snd (snd (generateMountsModeInstall rs w)) = w \<or>
        snd (snd (generateMountsModeInstall rs w)) =
          w\<lparr>modeenvFile := (modeenvFile w)
               (systemDataDir := Inr \<lparr>Mode = ''install'', RecoverySystem = rs,
                                       Base = [], Kernel = []\<rparr>)\<rparr>"
    by (simp add: install_unfold Modeenv_Write_def split: sum.split prod.split option.split)
  moreover have "w = w\<lparr>modeenvFile := modeenvFile w\<rparr>" by simp
  ultimately show ?thesis by metis
qed

lemma run_post: "snd (snd (generateMountsModeRun w)) = w"
  by (simp add: run_eval split: sum.split prod.split option.split)

text \<open>
  C3. A generator invoked a second time, in the world its first invocation left behind
  and so with the mount probe answering as before, writes the same output and returns
  the same error. For the install generator the world in between may differ in the
  modeenv it wrote; the run generator leaves the world as it is.
\<close>

theorem generators_idempotent:
  "(case generateMountsModeInstall recoverySystem w of
      (out, err, w') \<Rightarrow>
        IsMounted w' = IsMounted w
        \<and> fst (generateMountsModeInstall recoverySystem w') = out
        \<and> fst (snd (generateMountsModeInstall recoverySystem w')) = err)
   \<and> (case generateMountsModeRun w of
      (out, err, w') \<Rightarrow>
        IsMounted w' = IsMounted w
        \<and> fst (generateMountsModeRun w') = out
        \<and> fst (snd (generateMountsModeRun w')) = err)"
proof -
  obtain F where "snd (snd (generateMountsModeInstall recoverySystem w)) = w\<lparr>modeenvFile := F\<rparr>"
    using install_post by blast
  then have "case generateMountsModeInstall recoverySystem w of
      (out, err, w') \<Rightarrow>
        IsMounted w' = IsMounted w
        \<and> fst (generateMountsModeInstall recoverySystem w') = out
        \<and> fst (snd (generateMountsModeInstall recoverySystem w')) = err"
    using install_frame [where rs = recoverySystem and w = w and F = F]
    by (cases "generateMountsModeInstall recoverySystem w") auto
  moreover have "case generateMountsModeRun w of
      (out, err, w') \<Rightarrow>
        IsMounted w' = IsMounted w
        \<and> fst (generateMountsModeRun w') = out
        \<and> fst (snd (generateMountsModeRun w')) = err"
    using run_post [of w] by (cases "generateMountsModeRun w") auto
  ultimately show ?thesis by blast
qed

theorem generators_idempotent_witness:
  "fst (generateMountsModeInstall ''20231001''
          (snd (snd (generateMountsModeInstall ''20231001''
                       (exampleWorld installCmdline allMounted noModeenv))))) =
     fst (generateMountsModeInstall ''20231001'' (exampleWorld installCmdline allMounted noModeenv))
   \<and> fst (generateMountsModeRun
          (snd (snd (generateMountsModeRun
                       (exampleWorld runCmdline basicMounted (Inr exampleModeenv)))))) =
     fst (generateMountsModeRun (exampleWorld runCmdline basicMounted (Inr exampleModeenv)))"
proof -
  let ?W = "exampleWorld installCmdline allMounted noModeenv"
  let ?V = "exampleWorld runCmdline basicMounted (Inr exampleModeenv)"
  obtain out err w' where g: "generateMountsModeInstall ''20231001'' ?W = (out, err, w')"
    by (cases "generateMountsModeInstall ''20231001'' ?W")
  then have "fst (generateMountsModeInstall ''20231001'' w') = out"
    using generators_idempotent [where recoverySystem = "''20231001''" and w = ?W] by simp
  with g have first:
    "fst (generateMountsModeInstall ''20231001''
            (snd (snd (generateMountsModeInstall ''20231001'' ?W)))) =
     fst (generateMountsModeInstall ''20231001'' ?W)"
    by simp
  obtain out2 err2 v' where h: "generateMountsModeRun ?V = (out2, err2, v')"
    by (cases "generateMountsModeRun ?V")
  then have "fst (generateMountsModeRun v') = out2"
    using generators_idempotent [where recoverySystem = "''20231001''" and w = ?V] by simp
  with h have second:
    "fst (generateMountsModeRun (snd (snd (generateMountsModeRun ?V)))) =
     fst (generateMountsModeRun ?V)"
    by simp
  from first second show ?thesis by simp
qed

end
